theory Spec2Isabelle
  imports
    Complex_Main
    "HOL-Library.AList"
    "HOL-Library.Multiset"
    "HOL-Library.Sublist"
    "HOL-Library.Char_ord"
    "HOL-Library.List_Lexorder"
    "HOL-Library.Product_Lexorder"
    "HOL-Library.Log_Nat"
begin

section \<open>JavaScript numbers\<close>

text \<open>
  A JavaScript number is an IEEE 754 double: a finite value, which is a rational
  number, an infinity or \<open>NaN\<close>. The amounts stored in the records (\<open>amount\<close>,
  \<open>limit_amount\<close>, \<open>target_amount\<close>, \<open>current_amount\<close>) are finite, and are given by
  their rational values. The sign of zero is outside the model.
\<close>

datatype number = Num rat | Infinity | NegInfinity | NaN

subsection \<open>Rounding to a double\<close>

text \<open>
  The result of an arithmetic operation on doubles is the exact result rounded to
  the nearest double, to the one with an even significand when two are equally
  near; a result beyond the largest double is an infinity.

  \<open>pow2 e\<close> is \<open>2\<close> to the power \<open>e\<close>. \<open>exponent_of x\<close> is, for a positive \<open>x\<close>, the
  \<open>e\<close> with \<open>2^e \<le> x < 2^(e+1)\<close>, found from the bit lengths of the numerator and
  the denominator. The doubles between \<open>2^e\<close> and \<open>2^(e+1)\<close> are the multiples of
  \<open>2^(e-52)\<close>, and below \<open>2^(-1022)\<close> the multiples of \<open>2^(-1074)\<close>.
\<close>

definition pow2 :: "int \<Rightarrow> rat" where
  "pow2 e = (if 0 \<le> e then 2 ^ nat e else 1 / 2 ^ nat (- e))"

definition exponent_of :: "rat \<Rightarrow> int" where
  "exponent_of x =
     (let e = bitlen (fst (quotient_of x)) - bitlen (snd (quotient_of x))
      in if pow2 e \<le> x then e else e - 1)"

definition round_half_even :: "rat \<Rightarrow> int" where
  "round_half_even q =
     (let f = \<lfloor>q\<rfloor>; r = q - of_int f
      in if r < 1 / 2 then f
         else if 1 / 2 < r then f + 1
         else if even f then f else f + 1)"

definition round_double :: "rat \<Rightarrow> number" where
  "round_double x =
     (if x = 0 then Num 0
      else
        (let a = \<bar>x\<bar>;
             e = max (exponent_of a) (- 1022);
             ulp = pow2 (e - 52);
             n = round_half_even (a / ulp)
         in if 1023 < e \<or> (e = 1023 \<and> n = 9007199254740992)
            then (if 0 < x then Infinity else NegInfinity)
            else Num (if 0 < x then of_int n * ulp else - (of_int n * ulp))))"

text \<open>
  The double nearest to a decimal numeral, as \<open>parseFloat\<close> and the JSON parser give
  it (for a numeral of finite value).
\<close>

definition double_value :: "rat \<Rightarrow> rat" where
  "double_value x = (case round_double x of Num y \<Rightarrow> y | _ \<Rightarrow> 0)"

subsection \<open>The operations on doubles\<close>

text \<open>\<open>x + y\<close>, \<open>x - y\<close>, \<open>x * y\<close>, \<open>x / y\<close> and \<open>x > y\<close> as ECMAScript defines them.\<close>

fun double_neg :: "number \<Rightarrow> number" where
  "double_neg (Num a) = Num (- a)"
| "double_neg Infinity = NegInfinity"
| "double_neg NegInfinity = Infinity"
| "double_neg NaN = NaN"

fun double_add :: "number \<Rightarrow> number \<Rightarrow> number" where
  "double_add (Num a) (Num b) = round_double (a + b)"
| "double_add (Num a) Infinity = Infinity"
| "double_add (Num a) NegInfinity = NegInfinity"
| "double_add (Num a) NaN = NaN"
| "double_add Infinity (Num b) = Infinity"
| "double_add Infinity Infinity = Infinity"
| "double_add Infinity NegInfinity = NaN"
| "double_add Infinity NaN = NaN"
| "double_add NegInfinity (Num b) = NegInfinity"
| "double_add NegInfinity Infinity = NaN"
| "double_add NegInfinity NegInfinity = NegInfinity"
| "double_add NegInfinity NaN = NaN"
| "double_add NaN y = NaN"

definition double_sub :: "number \<Rightarrow> number \<Rightarrow> number" where
  "double_sub x y = double_add x (double_neg y)"

fun double_mul :: "number \<Rightarrow> number \<Rightarrow> number" where
  "double_mul (Num a) (Num b) = round_double (a * b)"
| "double_mul (Num a) Infinity =
     (if a = 0 then NaN else if 0 < a then Infinity else NegInfinity)"
| "double_mul (Num a) NegInfinity =
     (if a = 0 then NaN else if 0 < a then NegInfinity else Infinity)"
| "double_mul (Num a) NaN = NaN"
| "double_mul Infinity (Num b) =
     (if b = 0 then NaN else if 0 < b then Infinity else NegInfinity)"
| "double_mul Infinity Infinity = Infinity"
| "double_mul Infinity NegInfinity = NegInfinity"
| "double_mul Infinity NaN = NaN"
| "double_mul NegInfinity (Num b) =
     (if b = 0 then NaN else if 0 < b then NegInfinity else Infinity)"
| "double_mul NegInfinity Infinity = NegInfinity"
| "double_mul NegInfinity NegInfinity = Infinity"
| "double_mul NegInfinity NaN = NaN"
| "double_mul NaN y = NaN"

fun double_div :: "number \<Rightarrow> number \<Rightarrow> number" where
  "double_div (Num a) (Num b) =
     (if b \<noteq> 0 then round_double (a / b)
      else if a = 0 then NaN
      else if 0 < a then Infinity
      else NegInfinity)"
| "double_div (Num a) Infinity = Num 0"
| "double_div (Num a) NegInfinity = Num 0"
| "double_div (Num a) NaN = NaN"
| "double_div Infinity (Num b) = (if 0 \<le> b then Infinity else NegInfinity)"
| "double_div Infinity Infinity = NaN"
| "double_div Infinity NegInfinity = NaN"
| "double_div Infinity NaN = NaN"
| "double_div NegInfinity (Num b) = (if 0 \<le> b then NegInfinity else Infinity)"
| "double_div NegInfinity Infinity = NaN"
| "double_div NegInfinity NegInfinity = NaN"
| "double_div NegInfinity NaN = NaN"
| "double_div NaN y = NaN"

fun double_gt :: "number \<Rightarrow> number \<Rightarrow> bool" where
  "double_gt (Num a) (Num b) = (b < a)"
| "double_gt (Num a) Infinity = False"
| "double_gt (Num a) NegInfinity = True"
| "double_gt (Num a) NaN = False"
| "double_gt Infinity (Num b) = True"
| "double_gt Infinity Infinity = False"
| "double_gt Infinity NegInfinity = True"
| "double_gt Infinity NaN = False"
| "double_gt NegInfinity y = False"
| "double_gt NaN y = False"

text \<open>\<open>x >= y\<close>.\<close>

fun double_ge :: "number \<Rightarrow> number \<Rightarrow> bool" where
  "double_ge (Num a) (Num b) = (b \<le> a)"
| "double_ge (Num a) Infinity = False"
| "double_ge (Num a) NegInfinity = True"
| "double_ge (Num a) NaN = False"
| "double_ge Infinity (Num b) = True"
| "double_ge Infinity Infinity = True"
| "double_ge Infinity NegInfinity = True"
| "double_ge Infinity NaN = False"
| "double_ge NegInfinity (Num b) = False"
| "double_ge NegInfinity Infinity = False"
| "double_ge NegInfinity NegInfinity = True"
| "double_ge NegInfinity NaN = False"
| "double_ge NaN y = False"

text \<open>
  The sum of a list of numbers as \<open>reduce((sum, x) => sum + x, 0)\<close> computes it: from
  \<open>0\<close>, one rounded addition for each element, in the order of the list.
\<close>

definition number_sum :: "number list \<Rightarrow> number" where
  "number_sum xs = foldl double_add (Num 0) xs"

definition double_sum :: "rat list \<Rightarrow> number" where
  "double_sum xs = number_sum (map Num xs)"

text \<open>
  Whole amounts: numbers without a fractional part that are not negative, with a
  sum below \<open>2^53\<close>. Their additions are exact.
\<close>

definition whole :: "rat \<Rightarrow> bool" where
  "whole a = (0 \<le> a \<and> a = of_int \<lfloor>a\<rfloor>)"

definition whole_amounts :: "rat list \<Rightarrow> bool" where
  "whole_amounts xs = (list_all whole xs \<and> sum_list xs < 2 ^ 53)"

subsection \<open>Exact operations\<close>

text \<open>
  The current amount of a goal starts at 0 and moves in steps of 1000 and 5000,
  which doubles add and compare exactly; the operations on the amounts of goals
  are the exact ones, also the quotient of the progress percentage. A division
  is the one operation on them that can leave the finite numbers: \<open>x / 0\<close> is \<open>NaN\<close>
  for \<open>x = 0\<close> and an infinity otherwise. The operations applied to such a
  quotient (\<open>* 100\<close>, \<open>Math.min(_, 100)\<close>) and the comparison of a number with a
  constant (\<open>> 80\<close>) follow ECMAScript on the values of \<open>number\<close>.
\<close>



text \<open>\<open>x > c\<close> for a finite right operand: every comparison with \<open>NaN\<close> is false.\<close>

fun js_gt :: "number \<Rightarrow> rat \<Rightarrow> bool" where
  "js_gt (Num a) c = (c < a)"
| "js_gt Infinity c = True"
| "js_gt NegInfinity c = False"
| "js_gt NaN c = False"


text \<open>\<open>Math.max(0, x)\<close> on a finite \<open>x\<close>.\<close>

definition Math_max0 :: "rat \<Rightarrow> rat" where
  "Math_max0 x = max 0 x"


section \<open>Financial goals (\<open>FinancialGoals.tsx\<close>)\<close>

text \<open>
  A row of the table \<open>financial_goals\<close>, with the constraints
  \<open>CHECK (target_amount > 0)\<close> and \<open>CHECK (current_amount >= 0)\<close>.
\<close>

record FinancialGoal =
  goal_id :: string
  title :: string
  target_amount :: rat
  current_amount :: rat
  deadline :: "string option"
  goal_category :: "string option"
  is_completed :: bool


text \<open>\<open>goals.find(g => g.id === goalId)\<close>: the first goal with that id, if any.\<close>

definition find_goal :: "FinancialGoal list \<Rightarrow> string \<Rightarrow> FinancialGoal option" where
  "find_goal goals goalId = find (\<lambda>g. goal_id g = goalId) goals"

text \<open>
  The write that \<open>updateGoalProgress\<close> sends to the table \<open>financial_goals\<close>:
  \<open>.update({ current_amount: newAmount, is_completed: isCompleted }).eq('id', goalId)\<close>.
  One request carries both fields.
\<close>

record goal_update =
  eq_id :: string
  set_current_amount :: rat
  set_is_completed :: bool

text \<open>
  Lines 112 to 124 of \<open>updateGoalProgress\<close>: the goal is looked up in the component's
  list; when it is missing the function returns before any request is built.
\<close>

definition progress_request :: "FinancialGoal list \<Rightarrow> string \<Rightarrow> rat \<Rightarrow> goal_update option" where
  "progress_request goals goalId amount =
     (case find_goal goals goalId of
        None \<Rightarrow> None
      | Some goal \<Rightarrow>
          (let newAmount = Math_max0 (current_amount goal + amount);
               isCompleted = (target_amount goal \<le> newAmount)
           in Some \<lparr>eq_id = goalId,
                    set_current_amount = newAmount,
                    set_is_completed = isCompleted\<rparr>))"

text \<open>
  The record store executes the request on its rows: every row whose id equals
  \<open>eq_id\<close> gets both fields, the other rows are left as they are.
\<close>

definition apply_update :: "goal_update \<Rightarrow> FinancialGoal list \<Rightarrow> FinancialGoal list" where
  "apply_update u rows =
     map (\<lambda>g. if goal_id g = eq_id u
              then g\<lparr>current_amount := set_current_amount u,
                     is_completed := set_is_completed u\<rparr>
              else g) rows"

text \<open>
  The component: \<open>store\<close> is the table \<open>financial_goals\<close> as the queries of this
  user see it (the user's rows, in the order of \<open>fetchGoals\<close>), \<open>goals\<close> is the list
  held in the component's state, and \<open>writes\<close> logs the update requests sent so far,
  the latest first.
\<close>

record component =
  store :: "FinancialGoal list"
  goals :: "FinancialGoal list"
  writes :: "goal_update list"

text \<open>
  The answers of the record store, which the code cannot choose: whether the update
  is accepted (\<open>error\<close> is null) and whether the following \<open>fetchGoals\<close> succeeds.
\<close>

record backend =
  write_ok :: bool
  fetch_ok :: bool

text \<open>
  \<open>fetchGoals\<close>: on success the component's list is replaced by the rows of the store;
  on failure only a notification is shown.
\<close>

definition fetchGoals :: "backend \<Rightarrow> component \<Rightarrow> component" where
  "fetchGoals be st = (if fetch_ok be then st\<lparr>goals := store st\<rparr> else st)"

text \<open>
  \<open>updateGoalProgress(goalId, amount)\<close>: no goal with that id, return; otherwise send
  the update; a rejected update throws into the \<open>catch\<close> (a notification, no change of
  state); an accepted one changes the rows and is followed by \<open>fetchGoals\<close>.
\<close>

definition updateGoalProgress :: "backend \<Rightarrow> string \<Rightarrow> rat \<Rightarrow> component \<Rightarrow> component" where
  "updateGoalProgress be goalId amount st =
     (case progress_request (goals st) goalId amount of
        None \<Rightarrow> st
      | Some u \<Rightarrow>
          (if write_ok be
           then fetchGoals be (st\<lparr>store := apply_update u (store st), writes := u # writes st\<rparr>)
           else st\<lparr>writes := u # writes st\<rparr>))"

text \<open>The current amount of the goal with a given id, as the store has it.\<close>

definition stored_amount :: "component \<Rightarrow> string \<Rightarrow> rat option" where
  "stored_amount st goalId = map_option current_amount (find_goal (store st) goalId)"

text \<open>A component whose list is the store's rows, as after a successful \<open>fetchGoals\<close>.\<close>

definition in_sync :: "component \<Rightarrow> bool" where
  "in_sync st = (goals st = store st)"

text \<open>The backend that accepts the update and answers the fetch.\<close>

definition accepting :: backend where
  "accepting = \<lparr>write_ok = True, fetch_ok = True\<rparr>"


section \<open>Transactions\<close>

datatype transaction_type = Income | Expense

text \<open>
  The interface \<open>Transaction\<close> of \<open>FinanceTracker.tsx\<close>; the charts and the budget
  manager declare the same record with fewer fields. \<open>date\<close> is the string
  \<open>yyyy-MM-dd\<close> written by \<open>addTransaction\<close>.
\<close>

record Transaction =
  transaction_id :: string
  date :: string
  category :: string
  amount :: rat
  type :: transaction_type
  description :: "string option"


definition reduce_double :: "Transaction list \<Rightarrow> number" where
  "reduce_double xs = foldl (\<lambda>sum t. double_add sum (Num (amount t))) (Num 0) xs"


section \<open>Period summary (\<open>FinanceTracker.tsx\<close>, \<open>calculateSummary\<close>)\<close>

record 'n summary =
  income :: 'n
  expenses :: 'n
  balance :: 'n

text \<open>
  \<open>currentMonth\<close> is \<open>format(new Date(), 'yyyy-MM')\<close>, the reference month; a
  transaction belongs to it when its date string starts with it. The two sums
  and the difference are those of doubles.
\<close>

definition calculateSummary :: "string \<Rightarrow> Transaction list \<Rightarrow> number summary" where
  "calculateSummary currentMonth transactions =
     (let monthTransactions = filter (\<lambda>t. prefix currentMonth (date t)) transactions;
          income = reduce_double (filter (\<lambda>t. type t = Income) monthTransactions);
          expenses = reduce_double (filter (\<lambda>t. type t = Expense) monthTransactions)
      in \<lparr>income = income, expenses = expenses, balance = double_sub income expenses\<rparr>)"


section \<open>Budget utilization (\<open>BudgetManager\<close>, \<open>budgetAnalysis\<close>)\<close>

datatype budget_period = Monthly | Weekly

text \<open>
  A row of the table \<open>budgets\<close>, whose constraint \<open>CHECK (limit_amount > 0)\<close> lets
  no budget with a limit of zero reach the component.
\<close>

record Budget =
  budget_id :: string
  budget_category :: string
  limit_amount :: rat
  period :: budget_period
  start_date :: string
  end_date :: string

text \<open>The analysed budget: \<open>{ ...budget, spent, remaining, percentage, isOverBudget, isNearLimit }\<close>.\<close>

record BudgetAnalysis = Budget +
  spent :: number
  remaining :: number
  percentage :: number
  isOverBudget :: bool
  isNearLimit :: bool

text \<open>
  The body of the \<open>budgets.map\<close> callback. \<open>t.date >= budget.start_date\<close> compares two
  strings, lexicographically by character code, which is the order \<open>\<le>\<close> of lists of
  characters. The sum, the quotient, the product, the difference and the
  comparison \<open>spent > budget.limit_amount\<close> are those of doubles.
\<close>

definition analyse :: "Transaction list \<Rightarrow> Budget \<Rightarrow> BudgetAnalysis" where
  "analyse transactions budget =
     (let spent = reduce_double
            (filter (\<lambda>t. type t = Expense \<and>
                          category t = budget_category budget \<and>
                          start_date budget \<le> date t \<and>
                          date t \<le> end_date budget) transactions);
          percentage = double_mul (double_div spent (Num (limit_amount budget))) (Num 100);
          remaining = double_sub (Num (limit_amount budget)) spent;
          isOverBudget = double_gt spent (Num (limit_amount budget));
          isNearLimit = (js_gt percentage 80 \<and> \<not> isOverBudget)
      in Budget.extend budget
           (BudgetAnalysis.fields spent remaining percentage isOverBudget isNearLimit))"

definition budgetAnalysis :: "Budget list \<Rightarrow> Transaction list \<Rightarrow> BudgetAnalysis list" where
  "budgetAnalysis budgets transactions = map (analyse transactions) budgets"


section \<open>Expenses by category (\<open>ExpenseChart\<close>)\<close>

text \<open>
  \<open>categoryTotals\<close> is a plain object used as a dictionary. It is modelled by the list
  of its own properties in the order of their creation: assigning to an existing key
  keeps the key's place, assigning to a new key appends it (\<open>AList.update\<close>).
  A key that \<open>Object.prototype\<close> defines is found by \<open>acc[key]\<close> before it was ever
  assigned; the model covers the other keys only, and the theorems about the chart
  assume that no category is one of these names.
\<close>

type_synonym js_object = "(string \<times> number) list"

definition Object_prototype_keys :: "string list" where
  "Object_prototype_keys =
     [''constructor'', ''__defineGetter__'', ''__defineSetter__'', ''hasOwnProperty'',
      ''__lookupGetter__'', ''__lookupSetter__'', ''isPrototypeOf'',
      ''propertyIsEnumerable'', ''toString'', ''valueOf'', ''__proto__'',
      ''toLocaleString'']"

definition plain_key :: "string \<Rightarrow> bool" where
  "plain_key k = (k \<notin> set Object_prototype_keys)"

text \<open>
  \<open>x || 0\<close> where \<open>x\<close> is a property read: \<open>undefined\<close>, \<open>0\<close> and \<open>NaN\<close> are falsy.
\<close>

fun or_zero :: "number option \<Rightarrow> number" where
  "or_zero None = Num 0"
| "or_zero (Some (Num v)) = (if v = 0 then Num 0 else Num v)"
| "or_zero (Some Infinity) = Infinity"
| "or_zero (Some NegInfinity) = NegInfinity"
| "or_zero (Some NaN) = Num 0"

text \<open>
  The reducer:
  \<open>acc[transaction.category] = (acc[transaction.category] || 0) + transaction.amount\<close>.
\<close>

definition add_total :: "js_object \<Rightarrow> Transaction \<Rightarrow> js_object" where
  "add_total acc transaction =
     AList.update (category transaction)
       (double_add (or_zero (map_of acc (category transaction)))
          (Num (amount transaction))) acc"

text \<open>
  \<open>Object.entries\<close> lists the keys that are array indices first (canonical decimal
  numerals up to \<open>2^32 - 2\<close>), in ascending numeric order, then the other keys in the
  order of their creation.
\<close>

definition is_digit :: "char \<Rightarrow> bool" where
  "is_digit c = (c \<in> set ''0123456789'')"

definition digit_value :: "char \<Rightarrow> int" where
  "digit_value c = of_char c - 48"

definition numeral_value :: "string \<Rightarrow> int" where
  "numeral_value s = foldl (\<lambda>n c. 10 * n + digit_value c) 0 s"

definition is_array_index :: "string \<Rightarrow> bool" where
  "is_array_index s =
     (s \<noteq> [] \<and> list_all is_digit s \<and> (length s = 1 \<or> hd s \<noteq> CHR ''0'') \<and>
      numeral_value s \<le> 4294967294)"

definition Object_entries :: "js_object \<Rightarrow> (string \<times> number) list" where
  "Object_entries obj =
     sort_key (\<lambda>p. numeral_value (fst p)) (filter (\<lambda>p. is_array_index (fst p)) obj) @
     filter (\<lambda>p. \<not> is_array_index (fst p)) obj"

text \<open>
  An entry of the chart. In \<open>chartData\<close> the field \<open>percentage\<close> is the number \<open>0\<close>, in
  \<open>dataWithPercentages\<close> it is a string.
\<close>

record 'p chart_item =
  item_category :: string
  item_amount :: number
  item_percentage :: 'p

text \<open>
  \<open>chartData\<close>. \<open>currentMonth\<close> is \<open>new Date().toISOString().slice(0, 7)\<close>.
  \<open>sortedEntries\<close> is the chain \<open>Object.entries(categoryTotals).map(...).sort(...)\<close>:
  \<open>sort((a, b) => b.amount - a.amount)\<close> is a stable sort into descending amounts.
  The difference of two doubles is negative, zero or positive as the exact
  difference is, and \<open>Infinity - Infinity\<close> is \<open>NaN\<close>, which the sort takes as zero:
  on amounts other than \<open>NaN\<close> the comparison is the order of \<open>desc_key\<close>, and the
  sort is the stable \<open>sort_key\<close>. With an amount \<open>NaN\<close> the comparison is not an
  order and the result is left to the implementation; no sum of finite amounts
  is \<open>NaN\<close>. \<open>slice(0, 6)\<close> is \<open>take 6\<close>.
\<close>

fun desc_key :: "number \<Rightarrow> int \<times> rat" where
  "desc_key Infinity = (0, 0)"
| "desc_key (Num x) = (1, - x)"
| "desc_key NegInfinity = (2, 0)"
| "desc_key NaN = (3, 0)"

definition monthExpenses :: "string \<Rightarrow> Transaction list \<Rightarrow> Transaction list" where
  "monthExpenses currentMonth transactions =
     filter (\<lambda>t. type t = Expense \<and> prefix currentMonth (date t)) transactions"

definition categoryTotals :: "string \<Rightarrow> Transaction list \<Rightarrow> js_object" where
  "categoryTotals currentMonth transactions =
     foldl add_total [] (monthExpenses currentMonth transactions)"

definition to_item :: "string \<times> number \<Rightarrow> rat chart_item" where
  "to_item p = \<lparr>item_category = fst p, item_amount = snd p, item_percentage = 0\<rparr>"

definition sortedEntries :: "string \<Rightarrow> Transaction list \<Rightarrow> rat chart_item list" where
  "sortedEntries currentMonth transactions =
     sort_key (\<lambda>item. desc_key (item_amount item))
       (map to_item (Object_entries (categoryTotals currentMonth transactions)))"

definition chartData :: "string \<Rightarrow> Transaction list \<Rightarrow> rat chart_item list" where
  "chartData currentMonth transactions = take 6 (sortedEntries currentMonth transactions)"

definition totalAmount :: "rat chart_item list \<Rightarrow> number" where
  "totalAmount items = foldl (\<lambda>sum item. double_add sum (item_amount item)) (Num 0) items"

text \<open>
  \<open>toFixed(1)\<close>, applied to the value of the double: the decimal numeral of the
  integer \<open>n\<close> nearest to \<open>10 * x\<close> (the larger one of two nearest), with a point
  before its last digit, after the sign. The numeral is the one JavaScript prints
  for an absolute value below \<open>10^21\<close>; above, it switches to the exponent form,
  which is not modelled.
\<close>

fun decimal :: "nat \<Rightarrow> string" where
  "decimal n =
     (if n < 10 then [''0123456789'' ! n]
      else decimal (n div 10) @ [''0123456789'' ! (n mod 10)])"

declare decimal.simps [simp del]

fun toFixed1 :: "number \<Rightarrow> string" where
  "toFixed1 (Num x) =
     (let n = nat \<lfloor>\<bar>x\<bar> * 10 + 1 / 2\<rfloor>
      in (if x < 0 then ''-'' else []) @ decimal (n div 10) @ ''.'' @ decimal (n mod 10))"
| "toFixed1 Infinity = ''Infinity''"
| "toFixed1 NegInfinity = ''-Infinity''"
| "toFixed1 NaN = ''NaN''"

text \<open>
  \<open>dataWithPercentages\<close>, with \<open>totalAmount\<close> taken over the entries of \<open>chartData\<close>:
  \<open>totalAmount > 0 ? ((item.amount / totalAmount) * 100).toFixed(1) : '0'\<close>.
\<close>

definition with_percentage :: "number \<Rightarrow> rat chart_item \<Rightarrow> string chart_item" where
  "with_percentage totalAmt item =
     \<lparr>item_category = item_category item,
      item_amount = item_amount item,
      item_percentage =
        (if double_gt totalAmt (Num 0)
         then toFixed1 (double_mul (double_div (item_amount item) totalAmt) (Num 100))
         else ''0'')\<rparr>"

definition dataWithPercentages :: "rat chart_item list \<Rightarrow> string chart_item list" where
  "dataWithPercentages items = map (with_percentage (totalAmount items)) items"


section \<open>Thirty-day trend (\<open>TrendChart\<close>)\<close>





section \<open>The specification's aggregates\<close>

text \<open>
  The total of one category, in the words of the specification: the sum of the
  amounts of the transactions of a list that carry the category, added as doubles
  in the order of the list.
\<close>

definition category_total :: "string \<Rightarrow> Transaction list \<Rightarrow> number" where
  "category_total c xs = double_sum (map amount (filter (\<lambda>t. category t = c) xs))"


section \<open>Example records\<close>

text \<open>The examples of the specification's section 8, and a few more records.\<close>

definition tx :: "string \<Rightarrow> string \<Rightarrow> rat \<Rightarrow> transaction_type \<Rightarrow> Transaction" where
  "tx d c a k =
     \<lparr>transaction_id = [], date = d, category = c, amount = a, type = k,
      description = None\<rparr>"

definition may_transactions :: "Transaction list" where
  "may_transactions =
     [tx ''2024-05-01'' ''food'' 1000 Expense,
      tx ''2024-05-02'' ''salary'' 5000 Income]"

definition food_budget :: "rat \<Rightarrow> Budget" where
  "food_budget limit =
     \<lparr>budget_id = ''b1'', budget_category = ''food'', limit_amount = limit,
      period = Monthly, start_date = ''2024-05-01'', end_date = ''2024-05-31''\<rparr>"

definition a_goal :: "rat \<Rightarrow> rat \<Rightarrow> FinancialGoal" where
  "a_goal target current =
     \<lparr>goal_id = ''g1'', title = ''trip'', target_amount = target,
      current_amount = current, deadline = None, goal_category = None,
      is_completed = (target \<le> current)\<rparr>"

definition holding :: "FinancialGoal \<Rightarrow> component" where
  "holding g = \<lparr>store = [g], goals = [g], writes = []\<rparr>"

text \<open>Seven categories of expenses in one month, with the amounts 1 to 7.\<close>

definition seven_categories :: "Transaction list" where
  "seven_categories =
     [tx ''2024-05-01'' ''a'' 1 Expense, tx ''2024-05-02'' ''b'' 2 Expense,
      tx ''2024-05-03'' ''c'' 3 Expense, tx ''2024-05-04'' ''d'' 4 Expense,
      tx ''2024-05-05'' ''e'' 5 Expense, tx ''2024-05-06'' ''f'' 6 Expense,
      tx ''2024-05-07'' ''g'' 7 Expense]"




text \<open>Amounts with cents, as \<open>parseFloat\<close> reads them.\<close>

definition tenths :: "Transaction list" where
  "tenths =
     [tx ''2024-05-01'' ''gift'' (double_value (1 / 10)) Income,
      tx ''2024-05-01'' ''gift'' (double_value (2 / 10)) Income,
      tx ''2024-05-01'' ''gift'' (double_value (3 / 10)) Income]"

definition cents :: "Transaction list" where
  "cents =
     [tx ''2024-05-01'' ''food'' (double_value (1 / 100)) Expense,
      tx ''2024-05-02'' ''food'' 2 Expense]"

definition two_categories :: "Transaction list" where
  "two_categories =
     [tx ''2024-05-01'' ''food'' 41 Expense, tx ''2024-05-02'' ''rent'' 39 Expense]"


section \<open>Sums\<close>



lemma sum_list_filter_mset:
  "sum_list (map amount (filter P xs)) = sum_mset (image_mset amount (filter_mset P (mset xs)))"
  by (metis mset_filter mset_map sum_mset_sum_list)


lemma sum_list_filter_le:
  "\<forall>x \<in> set xs. (0::rat) \<le> f x \<Longrightarrow> sum_list (map f (filter P xs)) \<le> sum_list (map f xs)"
  by (induction xs) (auto intro: add_increasing)


section \<open>Rounding\<close>

lemma round_half_even_of_int [simp]: "round_half_even (of_int n) = n"
  by (simp add: round_half_even_def)

lemma round_double_not_NaN [simp]: "round_double x \<noteq> NaN"
  by (simp add: round_double_def Let_def)

lemma exponent_of_int:
  assumes "0 < k"
  shows "exponent_of (of_int k) = bitlen k - 1"
proof -
  have q: "quotient_of (of_int k) = (k, 1)"
    by (metis Rat.of_int_def quotient_of_int)
  have b1: "bitlen 1 = 1"
    by (simp add: compute_bitlen)
  have "1 \<le> bitlen k"
    using assms bitlen_eq_zero_iff [of k] bitlen_nonneg [of k] by linarith
  moreover have "(2::int) ^ nat (bitlen k - 1) \<le> k"
    using bitlen_bounds [OF assms] by simp
  then have "(2::rat) ^ nat (bitlen k - 1) \<le> of_int k"
    by (metis of_int_le_iff of_int_numeral of_int_power)
  ultimately have "pow2 (bitlen k - 1) \<le> of_int k"
    by (simp add: pow2_def)
  then show ?thesis
    by (simp add: exponent_of_def q b1)
qed

lemma bitlen_le_53:
  assumes "0 < k" and "k < 2 ^ 53"
  shows "bitlen k \<le> 53"
proof -
  have "(2::int) ^ nat (bitlen k - 1) \<le> k"
    using bitlen_bounds [OF assms(1)] by simp
  with assms(2) have "(2::int) ^ nat (bitlen k - 1) < 2 ^ 53" by linarith
  then have "nat (bitlen k - 1) < 53"
    by (rule power_less_imp_less_exp [rotated]) simp
  then show ?thesis by linarith
qed

text \<open>An integer below \<open>2^53\<close> in absolute value is a double.\<close>

lemma round_double_pos_int:
  assumes "0 < k" and "k < 2 ^ 53"
  shows "round_double (of_int k) = Num (of_int k)"
proof -
  let ?e = "bitlen k - 1"
  have e: "exponent_of (of_int k) = ?e" using assms(1) by (rule exponent_of_int)
  have lo: "0 \<le> ?e"
    using assms(1) bitlen_eq_zero_iff [of k] bitlen_nonneg [of k] by linarith
  have hi: "?e \<le> 52" using bitlen_le_53 [OF assms] by simp
  let ?s = "nat (52 - ?e)"
  have m: "max ?e (- 1022) = ?e" using lo by simp
  have ulp: "pow2 (?e - 52) = 1 / 2 ^ ?s"
  proof (cases "?e = 52")
    case True
    then show ?thesis by (simp add: pow2_def)
  next
    case False
    with hi have "\<not> 0 \<le> ?e - 52" by simp
    moreover have "nat (- (?e - 52)) = ?s" by simp
    ultimately show ?thesis by (simp only: pow2_def if_False)
  qed
  have scaled: "of_int k / (1 / 2 ^ ?s) = (of_int (k * 2 ^ ?s) :: rat)"
    by simp
  have unscaled: "(of_int (k * 2 ^ ?s) :: rat) * (1 / 2 ^ ?s) = of_int k"
    by simp
  have pos: "(0::rat) < of_int k" "(of_int k :: rat) \<noteq> 0" "\<bar>of_int k :: rat\<bar> = of_int k"
    using assms(1) by simp_all
  have no: "\<not> 1023 < ?e" "?e \<noteq> 1023"
    using hi by simp_all
  show ?thesis
    unfolding round_double_def Let_def pos e m ulp scaled round_half_even_of_int unscaled
    using no pos(1,2) by simp
qed

lemma round_double_int:
  assumes "\<bar>k\<bar> < 2 ^ 53"
  shows "round_double (of_int k) = Num (of_int k)"
proof (cases "k = 0")
  case True
  then show ?thesis by (simp add: round_double_def)
next
  case False
  show ?thesis
  proof (cases "0 < k")
    case True
    with assms show ?thesis by (simp add: round_double_pos_int)
  next
    case neg: False
    with False have k: "0 < - k" "- k < 2 ^ 53" using assms by simp_all
    from round_double_pos_int [OF k]
    have r: "round_double (of_int (- k)) = Num (of_int (- k))" .
    have a: "\<bar>of_int k :: rat\<bar> = of_int (- k)" using k(1) by simp
    have n: "\<not> (0::rat) < of_int k" "(of_int k :: rat) \<noteq> 0" "(0::rat) < of_int (- k)"
      "(of_int (- k) :: rat) \<noteq> 0" "\<bar>of_int (- k) :: rat\<bar> = of_int (- k)"
      using k(1) False by simp_all
    from r show ?thesis
      unfolding round_double_def Let_def a
      by (simp only: n if_False if_True split: if_splits) (simp_all add: n)
  qed
qed

lemma round_double_whole:
  assumes "whole x" and "x < 2 ^ 53"
  shows "round_double x = Num x"
proof -
  from assms(1) have x: "x = of_int \<lfloor>x\<rfloor>" and "0 \<le> x" by (simp_all add: whole_def)
  then have "0 \<le> \<lfloor>x\<rfloor>" by simp
  moreover have "\<lfloor>x\<rfloor> < 2 ^ 53"
  proof -
    have "(of_int \<lfloor>x\<rfloor> :: rat) < of_int (2 ^ 53)" using assms(2) x by simp
    then show ?thesis by (simp only: of_int_less_iff)
  qed
  ultimately have "\<bar>\<lfloor>x\<rfloor>\<bar> < 2 ^ 53" by simp
  from round_double_int [OF this] x show ?thesis by simp
qed

lemma round_double_whole_diff:
  assumes "whole x" "x < 2 ^ 53" "whole y" "y < 2 ^ 53"
  shows "round_double (x - y) = Num (x - y)"
proof -
  from assms(1,3) have x: "x = of_int \<lfloor>x\<rfloor>" and y: "y = of_int \<lfloor>y\<rfloor>"
    and nn: "0 \<le> x" "0 \<le> y" by (simp_all add: whole_def)
  have d: "x - y = of_int (\<lfloor>x\<rfloor> - \<lfloor>y\<rfloor>)" using x y by simp
  have "\<bar>x - y\<bar> < 2 ^ 53" using nn assms(2,4) by (simp add: abs_if)
  then have "\<bar>(of_int (\<lfloor>x\<rfloor> - \<lfloor>y\<rfloor>) :: rat)\<bar> < of_int (2 ^ 53)" using d by simp
  then have "\<bar>\<lfloor>x\<rfloor> - \<lfloor>y\<rfloor>\<bar> < 2 ^ 53"
    by (simp only: of_int_abs [symmetric] of_int_less_iff)
  from round_double_int [OF this] d show ?thesis by simp
qed

lemma whole_add: "whole a \<Longrightarrow> whole b \<Longrightarrow> whole (a + b)"
proof -
  assume a: "whole a" and b: "whole b"
  then have "a + b = of_int (\<lfloor>a\<rfloor> + \<lfloor>b\<rfloor>)" by (simp add: whole_def)
  then have "a + b = of_int \<lfloor>a + b\<rfloor>" by (metis floor_of_int)
  with a b show ?thesis by (simp add: whole_def)
qed

lemma whole_zero [simp]: "whole 0"
  by (simp add: whole_def)

lemma whole_sum_list: "list_all whole xs \<Longrightarrow> whole (sum_list xs)"
  by (induction xs) (simp_all add: whole_add)

lemma whole_nonneg: "whole a \<Longrightarrow> 0 \<le> a"
  by (simp add: whole_def)


section \<open>Sums of doubles\<close>

lemma number_sum_foldl:
  "foldl (\<lambda>sum x. double_add sum (Num (f x))) (Num 0) xs = double_sum (map f xs)"
  by (simp add: double_sum_def number_sum_def foldl_map)

lemma reduce_double_sum: "reduce_double xs = double_sum (map amount xs)"
  by (simp add: reduce_double_def number_sum_foldl)

lemma double_add_Num_not_NaN: "x \<noteq> NaN \<Longrightarrow> double_add x (Num a) \<noteq> NaN"
  by (cases x) simp_all

lemma foldl_double_add_not_NaN:
  "s \<noteq> NaN \<Longrightarrow> foldl (\<lambda>sum a. double_add sum (Num a)) s xs \<noteq> NaN"
  by (induction xs arbitrary: s) (simp_all add: double_add_Num_not_NaN)

lemma double_sum_not_NaN: "double_sum xs \<noteq> NaN"
  by (simp add: double_sum_def number_sum_def foldl_map foldl_double_add_not_NaN)

text \<open>The additions of whole amounts are exact.\<close>

lemma foldl_double_add_whole:
  assumes "list_all whole xs" and "whole s" and "s + sum_list xs < 2 ^ 53"
  shows "foldl (\<lambda>sum a. double_add sum (Num a)) (Num s) xs = Num (s + sum_list xs)"
  using assms
proof (induction xs arbitrary: s)
  case Nil
  then show ?case by simp
next
  case (Cons a xs)
  from Cons.prems have a: "whole a" and xs: "list_all whole xs" by simp_all
  have "0 \<le> sum_list xs" using whole_nonneg [OF whole_sum_list [OF xs]] .
  with Cons.prems(3) have small: "s + a < 2 ^ 53" by simp
  have w: "whole (s + a)" using Cons.prems(2) a by (rule whole_add)
  have step: "double_add (Num s) (Num a) = Num (s + a)"
    using round_double_whole [OF w small] by simp
  have "s + a + sum_list xs < 2 ^ 53" using Cons.prems(3) by (simp add: add.assoc)
  from Cons.IH [OF xs w this] step show ?case by (simp add: add.assoc)
qed

lemma double_sum_whole:
  assumes "list_all whole xs" and "sum_list xs < 2 ^ 53"
  shows "double_sum xs = Num (sum_list xs)"
  using foldl_double_add_whole [OF assms(1) whole_zero] assms(2)
  by (simp add: double_sum_def number_sum_def foldl_map)

lemma whole_amounts_filter:
  assumes "whole_amounts (map amount ts)"
  shows "list_all whole (map amount (filter P ts))"
    and "sum_list (map amount (filter P ts)) < 2 ^ 53"
    and "whole (sum_list (map amount (filter P ts)))"
proof -
  from assms have all: "list_all whole (map amount ts)" and less: "sum_list (map amount ts) < 2 ^ 53"
    by (simp_all add: whole_amounts_def)
  from all show f: "list_all whole (map amount (filter P ts))"
    by (simp add: list_all_iff)
  from all have "\<forall>x \<in> set ts. 0 \<le> amount x"
    by (simp add: list_all_iff whole_nonneg)
  from sum_list_filter_le [OF this, of P] less
  show "sum_list (map amount (filter P ts)) < 2 ^ 53" by simp
  from f show "whole (sum_list (map amount (filter P ts)))" by (rule whole_sum_list)
qed

lemma double_sum_filter_whole:
  assumes "whole_amounts (map amount ts)"
  shows "double_sum (map amount (filter P ts)) = Num (sum_list (map amount (filter P ts)))"
  using whole_amounts_filter(1,2) [OF assms] by (rule double_sum_whole)

lemma whole_amounts_mset:
  assumes "mset ts' = mset ts"
  shows "whole_amounts (map amount ts') = whole_amounts (map amount ts)"
proof -
  have "set ts' = set ts" using assms by (rule mset_eq_setD)
  moreover have "sum_list (map amount ts') = sum_list (map amount ts)"
    using assms by (metis mset_map sum_mset_sum_list)
  ultimately show ?thesis by (simp add: whole_amounts_def list_all_iff)
qed


section \<open>Goal progress\<close>



lemma find_goal_apply_update:
  "find_goal (apply_update u rows) (eq_id u) =
     map_option (\<lambda>g. g\<lparr>current_amount := set_current_amount u,
                        is_completed := set_is_completed u\<rparr>)
       (find_goal rows (eq_id u))"
  by (induction rows) (simp_all add: find_goal_def apply_update_def)

lemma progress_request_found:
  "find_goal gs goalId = Some g \<Longrightarrow>
   progress_request gs goalId d =
     Some \<lparr>eq_id = goalId,
           set_current_amount = max 0 (current_amount g + d),
           set_is_completed = (target_amount g \<le> max 0 (current_amount g + d))\<rparr>"
  by (simp add: progress_request_def Math_max0_def Let_def)

lemma update_accepted_store:
  assumes "progress_request (goals st) goalId d = Some u" and "write_ok be"
  shows "store (updateGoalProgress be goalId d st) = apply_update u (store st)"
  using assms by (simp add: updateGoalProgress_def fetchGoals_def)

lemma update_rejected_store:
  assumes "\<not> write_ok be"
  shows "store (updateGoalProgress be goalId d st) = store st"
  using assms by (simp add: updateGoalProgress_def split: option.splits)

lemma update_accepted_goals:
  assumes "progress_request (goals st) goalId d = Some u" and "write_ok be" and "fetch_ok be"
  shows "goals (updateGoalProgress be goalId d st) = apply_update u (store st)"
  using assms by (simp add: updateGoalProgress_def fetchGoals_def)

text \<open>
  Claim C8. When the component holds a goal \<open>g\<close> with the given id, the request sent
  by \<open>updateGoalProgress\<close> sets \<open>current_amount\<close> to \<open>max 0 (current_amount g + d)\<close> and
  \<open>is_completed\<close> to the comparison of this new amount with the target, both in the
  one request. Where the store's row of that id has the target of \<open>g\<close>, an accepted
  request leaves that row with both fields written, so that \<open>is_completed\<close> holds
  exactly when the row's current amount has reached its target; a rejected request
  leaves the row as it was.
\<close>

theorem progress_mutation:
  assumes "find_goal (goals st) goalId = Some g"
      and "find_goal (store st) goalId = Some r"
      and "target_amount r = target_amount g"
  shows "progress_request (goals st) goalId d =
           Some \<lparr>eq_id = goalId,
                 set_current_amount = max 0 (current_amount g + d),
                 set_is_completed = (target_amount g \<le> max 0 (current_amount g + d))\<rparr> \<and>
         find_goal (store (updateGoalProgress be goalId d st)) goalId =
           Some (if write_ok be
                 then r\<lparr>current_amount := max 0 (current_amount g + d),
                        is_completed := (target_amount r \<le> max 0 (current_amount g + d))\<rparr>
                 else r) \<and>
         (write_ok be \<longrightarrow>
            (\<exists>r'. find_goal (store (updateGoalProgress be goalId d st)) goalId = Some r' \<and>
                  (is_completed r' \<longleftrightarrow> target_amount r' \<le> current_amount r')))"
proof -
  let ?u = "\<lparr>eq_id = goalId,
             set_current_amount = max 0 (current_amount g + d),
             set_is_completed = (target_amount g \<le> max 0 (current_amount g + d))\<rparr>"
  have req: "progress_request (goals st) goalId d = Some ?u"
    using assms(1) by (rule progress_request_found)
  have row: "find_goal (store (updateGoalProgress be goalId d st)) goalId =
           Some (if write_ok be
                 then r\<lparr>current_amount := max 0 (current_amount g + d),
                        is_completed := (target_amount r \<le> max 0 (current_amount g + d))\<rparr>
                 else r)"
  proof (cases "write_ok be")
    case True
    have "find_goal (apply_update ?u (store st)) (eq_id ?u) =
            Some (r\<lparr>current_amount := set_current_amount ?u,
                    is_completed := set_is_completed ?u\<rparr>)"
      using assms(2) by (simp only: find_goal_apply_update) simp
    then show ?thesis
      using True assms(3) by (simp add: update_accepted_store [OF req True])
  next
    case False
    then show ?thesis
      using assms(2) by (simp add: update_rejected_store)
  qed
  from req row show ?thesis by simp
qed

theorem progress_mutation_witness:
  "find_goal (goals (holding (a_goal 10000 9500))) ''g1'' = Some (a_goal 10000 9500) \<and>
   find_goal (store (holding (a_goal 10000 9500))) ''g1'' = Some (a_goal 10000 9500) \<and>
   write_ok accepting \<and>
   find_goal (store (updateGoalProgress accepting ''g1'' 1000 (holding (a_goal 10000 9500)))) ''g1''
     = Some (a_goal 10000 10500)"
proof -
  have f: "find_goal (goals (holding (a_goal 10000 9500))) ''g1'' = Some (a_goal 10000 9500)"
    by (simp add: holding_def find_goal_def a_goal_def)
  have s: "find_goal (store (holding (a_goal 10000 9500))) ''g1'' = Some (a_goal 10000 9500)"
    by (simp add: holding_def find_goal_def a_goal_def)
  show ?thesis
    using progress_mutation [OF f s refl, of 1000 accepting] f s
    by (simp add: accepting_def a_goal_def)
qed

text \<open>
  Claim C10. When no goal of the component's list has the given id,
  \<open>updateGoalProgress\<close> builds no request and returns the component as it was: the
  rows of the store, the component's list and the log of requests are unchanged.
\<close>

theorem unknown_goal_no_write:
  assumes "find_goal (goals st) goalId = None"
  shows "progress_request (goals st) goalId d = None \<and>
         updateGoalProgress be goalId d st = st"
  using assms by (simp add: updateGoalProgress_def progress_request_def)

theorem unknown_goal_no_write_witness:
  "find_goal (goals (holding (a_goal 10000 9500))) ''g2'' = None \<and>
   progress_request (goals (holding (a_goal 10000 9500))) ''g2'' 1000 = None \<and>
   updateGoalProgress accepting ''g2'' 1000 (holding (a_goal 10000 9500))
     = holding (a_goal 10000 9500)"
proof -
  have f: "find_goal (goals (holding (a_goal 10000 9500))) ''g2'' = None"
    by (simp add: holding_def find_goal_def a_goal_def)
  show ?thesis
    using unknown_goal_no_write [OF f, of 1000 accepting] f by simp
qed

text \<open>
  Claim C3, as stated, fails: a goal holding 500 that is debited by 1000 is clamped
  to 0, and the credit of 1000 that follows leaves 1000, not \<open>max 0 500\<close>.
\<close>

theorem delta_then_inverse_counterexample:
  "stored_amount
     (updateGoalProgress accepting ''g1'' (- (- 1000))
        (updateGoalProgress accepting ''g1'' (- 1000) (holding (a_goal 10000 500)))) ''g1''
   \<noteq> Some (max 0 (current_amount (a_goal 10000 500)))"
  by (simp add: stored_amount_def updateGoalProgress_def progress_request_def find_goal_def
      holding_def a_goal_def accepting_def fetchGoals_def apply_update_def Math_max0_def)

text \<open>
  Claim C3, amended. For a goal whose current amount \<open>x\<close> is not negative, held by a
  component in step with the store, applying \<open>d\<close> and then \<open>- d\<close> (both accepted)
  returns the current amount to \<open>max 0 x\<close> when \<open>0 \<le> x + d\<close>; when \<open>x + d < 0\<close> the first
  step clamps to 0 and the second leaves \<open>- d\<close>.
\<close>

theorem delta_then_inverse:
  assumes "in_sync st"
      and "find_goal (goals st) goalId = Some g"
      and "0 \<le> current_amount g"
  shows "stored_amount
           (updateGoalProgress accepting goalId (- d)
              (updateGoalProgress accepting goalId d st)) goalId
         = Some (if 0 \<le> current_amount g + d then max 0 (current_amount g) else - d)"
proof -
  let ?x = "current_amount g"
  let ?u = "\<lparr>eq_id = goalId, set_current_amount = max 0 (?x + d),
             set_is_completed = (target_amount g \<le> max 0 (?x + d))\<rparr>"
  let ?st1 = "updateGoalProgress accepting goalId d st"
  let ?g1 = "g\<lparr>current_amount := max 0 (?x + d),
               is_completed := (target_amount g \<le> max 0 (?x + d))\<rparr>"
  have w: "write_ok accepting" and f: "fetch_ok accepting"
    by (simp_all add: accepting_def)
  have req: "progress_request (goals st) goalId d = Some ?u"
    using assms(2) by (rule progress_request_found)
  have store1: "store ?st1 = apply_update ?u (store st)"
    by (rule update_accepted_store [OF req w])
  have goals1: "goals ?st1 = apply_update ?u (store st)"
    by (rule update_accepted_goals [OF req w f])
  have "find_goal (apply_update ?u (store st)) (eq_id ?u) = Some ?g1"
    using assms(1,2) by (simp only: find_goal_apply_update) (simp add: in_sync_def)
  then have found1: "find_goal (goals ?st1) goalId = Some ?g1"
    by (simp add: goals1)
  let ?y = "max 0 (max 0 (?x + d) + - d)"
  let ?v = "\<lparr>eq_id = goalId, set_current_amount = ?y,
             set_is_completed = (target_amount ?g1 \<le> ?y)\<rparr>"
  have req2: "progress_request (goals ?st1) goalId (- d) = Some ?v"
    using progress_request_found [OF found1, of "- d"] by simp
  have "store (updateGoalProgress accepting goalId (- d) ?st1) = apply_update ?v (store ?st1)"
    by (rule update_accepted_store [OF req2 w])
  moreover have "find_goal (store ?st1) (eq_id ?v) = Some ?g1"
    using found1 by (simp add: goals1 store1)
  ultimately have "stored_amount (updateGoalProgress accepting goalId (- d) ?st1) goalId = Some ?y"
    by (simp add: stored_amount_def find_goal_apply_update [of ?v, simplified])
  moreover have "?y = (if 0 \<le> ?x + d then max 0 ?x else - d)"
    using assms(3) by (simp add: max_def)
  ultimately show ?thesis by simp
qed

theorem delta_then_inverse_witness:
  "in_sync (holding (a_goal 10000 9500)) \<and>
   find_goal (goals (holding (a_goal 10000 9500))) ''g1'' = Some (a_goal 10000 9500) \<and>
   0 \<le> current_amount (a_goal 10000 9500) \<and>
   stored_amount
     (updateGoalProgress accepting ''g1'' (- 1000)
        (updateGoalProgress accepting ''g1'' 1000 (holding (a_goal 10000 9500)))) ''g1''
   = Some 9500"
proof -
  have a: "in_sync (holding (a_goal 10000 9500))"
    by (simp add: in_sync_def holding_def)
  have f: "find_goal (goals (holding (a_goal 10000 9500))) ''g1'' = Some (a_goal 10000 9500)"
    by (simp add: holding_def find_goal_def a_goal_def)
  have c: "0 \<le> current_amount (a_goal 10000 9500)"
    by (simp add: a_goal_def)
  show ?thesis
    using delta_then_inverse [OF a f c, of 1000] a f c by (simp add: a_goal_def)
qed


section \<open>Period summary\<close>

lemma calculateSummary_fields:
  "income (calculateSummary m ts) =
     double_sum (map amount (filter (\<lambda>t. type t = Income \<and> prefix m (date t)) ts))"
  "expenses (calculateSummary m ts) =
     double_sum (map amount (filter (\<lambda>t. type t = Expense \<and> prefix m (date t)) ts))"
  "balance (calculateSummary m ts) =
     double_sub (income (calculateSummary m ts)) (expenses (calculateSummary m ts))"
  by (simp_all add: calculateSummary_def Let_def reduce_double_sum conj_commute)

lemma calculateSummary_whole:
  assumes "whole_amounts (map amount ts)"
  shows "calculateSummary m ts =
     \<lparr>income = Num (sum_list (map amount
                  (filter (\<lambda>t. type t = Income \<and> prefix m (date t)) ts))),
      expenses = Num (sum_list (map amount
                  (filter (\<lambda>t. type t = Expense \<and> prefix m (date t)) ts))),
      balance = Num (sum_list (map amount
                  (filter (\<lambda>t. type t = Income \<and> prefix m (date t)) ts)) -
                sum_list (map amount
                  (filter (\<lambda>t. type t = Expense \<and> prefix m (date t)) ts)))\<rparr>"
proof -
  let ?i = "sum_list (map amount (filter (\<lambda>t. type t = Income \<and> prefix m (date t)) ts))"
  let ?e = "sum_list (map amount (filter (\<lambda>t. type t = Expense \<and> prefix m (date t)) ts))"
  have i: "income (calculateSummary m ts) = Num ?i"
    by (simp only: calculateSummary_fields double_sum_filter_whole [OF assms])
  have e: "expenses (calculateSummary m ts) = Num ?e"
    by (simp only: calculateSummary_fields double_sum_filter_whole [OF assms])
  have "round_double (?i - ?e) = Num (?i - ?e)"
    using whole_amounts_filter(2,3) [OF assms] by (intro round_double_whole_diff)
  then have b: "balance (calculateSummary m ts) = Num (?i - ?e)"
    by (simp add: calculateSummary_fields(3) i e double_sub_def)
  from i e b show ?thesis by (cases "calculateSummary m ts") simp
qed

lemma calculateSummary_mset:
  assumes "whole_amounts (map amount ts)" and "mset ts' = mset ts"
  shows "calculateSummary m ts' = calculateSummary m ts"
proof -
  have w: "whole_amounts (map amount ts')"
    using assms(1) by (simp only: whole_amounts_mset [OF assms(2)])
  have "\<And>P. sum_list (map amount (filter P ts')) = sum_list (map amount (filter P ts))"
    by (simp only: sum_list_filter_mset assms(2))
  then show ?thesis
    by (simp only: calculateSummary_whole [OF w] calculateSummary_whole [OF assms(1)])
qed

text \<open>
  Claim C6, as stated, fails. The incomes 0.1, 0.2 and 0.3 of one day add up to
  0.6000000000000001 in this order and to 0.6 in the reverse order: the summary
  depends on the order of the transactions.
\<close>

theorem period_summary_counterexample:
  "mset (rev tenths) = mset tenths \<and>
   income (calculateSummary ''2024-05'' tenths) =
     Num (1351079888211149 / 2251799813685248) \<and>
   income (calculateSummary ''2024-05'' (rev tenths)) =
     Num (5404319552844595 / 9007199254740992) \<and>
   calculateSummary ''2024-05'' (rev tenths) \<noteq> calculateSummary ''2024-05'' tenths"
proof -
  have a: "income (calculateSummary ''2024-05'' tenths) =
     Num (1351079888211149 / 2251799813685248)"
    by code_simp
  have b: "income (calculateSummary ''2024-05'' (rev tenths)) =
     Num (5404319552844595 / 9007199254740992)"
    by code_simp
  have "income (calculateSummary ''2024-05'' (rev tenths)) \<noteq>
        income (calculateSummary ''2024-05'' tenths)"
    unfolding a b by simp
  then have c: "calculateSummary ''2024-05'' (rev tenths) \<noteq> calculateSummary ''2024-05'' tenths"
    by (rule contrapos_nn) (erule arg_cong)
  have m: "mset (rev tenths) = mset tenths" by simp
  from m a b c show ?thesis by (intro conjI)
qed

text \<open>
  Claim C6, amended. For every list of transactions and reference month,
  \<open>calculateSummary\<close> gives as income the sum of the amounts of the income
  transactions whose date starts with the month, added as doubles in the order of
  the list, as expenses the same sum over the expense transactions, and as balance
  the double \<open>income - expenses\<close>; the empty list gives three zeros. When the
  amounts are whole numbers with a sum below \<open>2^53\<close>, the three are the exact sums
  and their exact difference, and a list with the same transactions in another
  order gives the same summary.
\<close>

theorem period_summary:
  "income (calculateSummary m ts) =
     double_sum (map amount (filter (\<lambda>t. type t = Income \<and> prefix m (date t)) ts)) \<and>
   expenses (calculateSummary m ts) =
     double_sum (map amount (filter (\<lambda>t. type t = Expense \<and> prefix m (date t)) ts)) \<and>
   balance (calculateSummary m ts) =
     double_sub (income (calculateSummary m ts)) (expenses (calculateSummary m ts)) \<and>
   calculateSummary m [] = \<lparr>income = Num 0, expenses = Num 0, balance = Num 0\<rparr> \<and>
   (whole_amounts (map amount ts) \<longrightarrow>
      income (calculateSummary m ts) =
        Num (sum_list (map amount
               (filter (\<lambda>t. type t = Income \<and> prefix m (date t)) ts))) \<and>
      expenses (calculateSummary m ts) =
        Num (sum_list (map amount
               (filter (\<lambda>t. type t = Expense \<and> prefix m (date t)) ts))) \<and>
      balance (calculateSummary m ts) =
        Num (sum_list (map amount
               (filter (\<lambda>t. type t = Income \<and> prefix m (date t)) ts)) -
             sum_list (map amount
               (filter (\<lambda>t. type t = Expense \<and> prefix m (date t)) ts))) \<and>
      (\<forall>ts'. mset ts' = mset ts \<longrightarrow> calculateSummary m ts' = calculateSummary m ts))"
proof (intro conjI impI allI)
  show "income (calculateSummary m ts) =
     double_sum (map amount (filter (\<lambda>t. type t = Income \<and> prefix m (date t)) ts))"
    by (rule calculateSummary_fields(1))
  show "expenses (calculateSummary m ts) =
     double_sum (map amount (filter (\<lambda>t. type t = Expense \<and> prefix m (date t)) ts))"
    by (rule calculateSummary_fields(2))
  show "balance (calculateSummary m ts) =
     double_sub (income (calculateSummary m ts)) (expenses (calculateSummary m ts))"
    by (rule calculateSummary_fields(3))
  show "calculateSummary m [] = \<lparr>income = Num 0, expenses = Num 0, balance = Num 0\<rparr>"
    by (simp add: calculateSummary_def reduce_double_def double_sub_def round_double_def Let_def)
next
  assume w: "whole_amounts (map amount ts)"
  show "income (calculateSummary m ts) =
        Num (sum_list (map amount
               (filter (\<lambda>t. type t = Income \<and> prefix m (date t)) ts)))"
    by (simp add: calculateSummary_whole [OF w])
  show "expenses (calculateSummary m ts) =
        Num (sum_list (map amount
               (filter (\<lambda>t. type t = Expense \<and> prefix m (date t)) ts)))"
    by (simp add: calculateSummary_whole [OF w])
  show "balance (calculateSummary m ts) =
        Num (sum_list (map amount
               (filter (\<lambda>t. type t = Income \<and> prefix m (date t)) ts)) -
             sum_list (map amount
               (filter (\<lambda>t. type t = Expense \<and> prefix m (date t)) ts)))"
    by (simp add: calculateSummary_whole [OF w])
  fix ts'
  assume "mset ts' = mset ts"
  with w show "calculateSummary m ts' = calculateSummary m ts"
    by (rule calculateSummary_mset)
qed

theorem period_summary_witness:
  "whole_amounts (map amount may_transactions) \<and>
   mset (rev may_transactions) = mset may_transactions \<and>
   calculateSummary ''2024-05'' (rev may_transactions) =
     \<lparr>income = Num 5000, expenses = Num 1000, balance = Num 4000\<rparr> \<and>
   calculateSummary ''2024-05'' may_transactions =
     \<lparr>income = Num 5000, expenses = Num 1000, balance = Num 4000\<rparr>"
proof -
  have w: "whole_amounts (map amount may_transactions)"
    by (simp add: whole_amounts_def whole_def may_transactions_def tx_def)
  have m: "mset (rev may_transactions) = mset may_transactions"
    by simp
  have i: "sum_list (map amount
      (filter (\<lambda>t. type t = Income \<and> prefix ''2024-05'' (date t)) may_transactions)) = 5000"
    by (simp add: may_transactions_def tx_def)
  have e: "sum_list (map amount
      (filter (\<lambda>t. type t = Expense \<and> prefix ''2024-05'' (date t)) may_transactions)) = 1000"
    by (simp add: may_transactions_def tx_def)
  note th = period_summary [of "''2024-05''" may_transactions]
  note ex = th [THEN conjunct2, THEN conjunct2, THEN conjunct2, THEN conjunct2, THEN mp, OF w]
  have f: "income (calculateSummary ''2024-05'' may_transactions) = Num 5000"
    using ex [THEN conjunct1] by (simp only: i)
  have g: "expenses (calculateSummary ''2024-05'' may_transactions) = Num 1000"
    using ex [THEN conjunct2, THEN conjunct1] by (simp only: e)
  have "balance (calculateSummary ''2024-05'' may_transactions) = Num (5000 - 1000)"
    using ex [THEN conjunct2, THEN conjunct2, THEN conjunct1] by (simp only: i e)
  then have h: "balance (calculateSummary ''2024-05'' may_transactions) = Num 4000"
    by simp
  from f g h have v: "calculateSummary ''2024-05'' may_transactions =
     \<lparr>income = Num 5000, expenses = Num 1000, balance = Num 4000\<rparr>"
    by (cases "calculateSummary ''2024-05'' may_transactions") simp
  have "calculateSummary ''2024-05'' (rev may_transactions) =
          calculateSummary ''2024-05'' may_transactions"
    using ex [THEN conjunct2, THEN conjunct2, THEN conjunct2, rule_format, OF m] .
  with v have r: "calculateSummary ''2024-05'' (rev may_transactions) =
     \<lparr>income = Num 5000, expenses = Num 1000, balance = Num 4000\<rparr>"
    by simp
  from w m r v show ?thesis by (intro conjI)
qed


section \<open>Budget utilization\<close>

lemma analyse_fields:
  "spent (analyse ts b) =
     double_sum (map amount
       (filter (\<lambda>t. type t = Expense \<and> category t = budget_category b \<and>
                     start_date b \<le> date t \<and> date t \<le> end_date b) ts))"
  "remaining (analyse ts b) = double_sub (Num (limit_amount b)) (spent (analyse ts b))"
  "percentage (analyse ts b) =
     double_mul (double_div (spent (analyse ts b)) (Num (limit_amount b))) (Num 100)"
  "isOverBudget (analyse ts b) = double_gt (spent (analyse ts b)) (Num (limit_amount b))"
  "isNearLimit (analyse ts b) =
     (js_gt (percentage (analyse ts b)) 80 \<and> \<not> isOverBudget (analyse ts b))"
  by (simp_all add: analyse_def Let_def reduce_double_sum Budget.defs BudgetAnalysis.defs)

lemma analyse_whole:
  assumes "whole_amounts (map amount ts)"
  shows "spent (analyse ts b) =
     Num (sum_list (map amount
       (filter (\<lambda>t. type t = Expense \<and> category t = budget_category b \<and>
                     start_date b \<le> date t \<and> date t \<le> end_date b) ts)))"
  by (simp only: analyse_fields double_sum_filter_whole [OF assms])

lemma analyse_whole_remaining:
  assumes "whole_amounts (map amount ts)" and "whole (limit_amount b)"
      and "limit_amount b < 2 ^ 53"
  shows "remaining (analyse ts b) =
     Num (limit_amount b - sum_list (map amount
       (filter (\<lambda>t. type t = Expense \<and> category t = budget_category b \<and>
                     start_date b \<le> date t \<and> date t \<le> end_date b) ts)))"
proof -
  let ?s = "sum_list (map amount
       (filter (\<lambda>t. type t = Expense \<and> category t = budget_category b \<and>
                     start_date b \<le> date t \<and> date t \<le> end_date b) ts))"
  have "round_double (limit_amount b - ?s) = Num (limit_amount b - ?s)"
    using assms(2,3) whole_amounts_filter(3,2) [OF assms(1)]
    by (intro round_double_whole_diff)
  then show ?thesis
    by (simp add: analyse_fields(2) analyse_whole [OF assms(1)] double_sub_def)
qed

text \<open>
  Claim C4. For every budget of the list and every list of transactions, the
  analysed budget has: \<open>spent\<close>, the sum of the amounts of the expense transactions
  of the budget's category whose date lies between \<open>start_date\<close> and \<open>end_date\<close>,
  both included, added as doubles in the order of the list;
  \<open>remaining = limit_amount - spent\<close>; \<open>percentage = spent / limit_amount * 100\<close>;
  and \<open>isOverBudget\<close> exactly when \<open>spent > limit_amount\<close>, each with the operation
  of doubles on the field \<open>spent\<close>. When the amounts are whole numbers with a sum
  below \<open>2^53\<close>, \<open>spent\<close> is the exact sum, and with a whole limit \<open>remaining\<close> is the
  exact difference.
\<close>

theorem budget_utilization:
  assumes "i < length budgets"
  shows
  "spent (budgetAnalysis budgets ts ! i) =
     double_sum (map amount
       (filter (\<lambda>t. type t = Expense \<and> category t = budget_category (budgets ! i) \<and>
                     start_date (budgets ! i) \<le> date t \<and> date t \<le> end_date (budgets ! i)) ts)) \<and>
   remaining (budgetAnalysis budgets ts ! i) =
     double_sub (Num (limit_amount (budgets ! i))) (spent (budgetAnalysis budgets ts ! i)) \<and>
   percentage (budgetAnalysis budgets ts ! i) =
     double_mul
       (double_div (spent (budgetAnalysis budgets ts ! i)) (Num (limit_amount (budgets ! i))))
       (Num 100) \<and>
   isOverBudget (budgetAnalysis budgets ts ! i) =
     double_gt (spent (budgetAnalysis budgets ts ! i)) (Num (limit_amount (budgets ! i))) \<and>
   (whole_amounts (map amount ts) \<longrightarrow>
      spent (budgetAnalysis budgets ts ! i) =
        Num (sum_list (map amount
          (filter (\<lambda>t. type t = Expense \<and> category t = budget_category (budgets ! i) \<and>
                        start_date (budgets ! i) \<le> date t \<and>
                        date t \<le> end_date (budgets ! i)) ts))) \<and>
      (whole (limit_amount (budgets ! i)) \<and> limit_amount (budgets ! i) < 2 ^ 53 \<longrightarrow>
         remaining (budgetAnalysis budgets ts ! i) =
           Num (limit_amount (budgets ! i) -
                sum_list (map amount
                  (filter (\<lambda>t. type t = Expense \<and>
                                category t = budget_category (budgets ! i) \<and>
                                start_date (budgets ! i) \<le> date t \<and>
                                date t \<le> end_date (budgets ! i)) ts)))))"
proof -
  have nth: "budgetAnalysis budgets ts ! i = analyse ts (budgets ! i)"
    using assms by (simp add: budgetAnalysis_def)
  show ?thesis
    unfolding nth
  proof (intro conjI impI)
    show "spent (analyse ts (budgets ! i)) =
     double_sum (map amount
       (filter (\<lambda>t. type t = Expense \<and> category t = budget_category (budgets ! i) \<and>
                     start_date (budgets ! i) \<le> date t \<and> date t \<le> end_date (budgets ! i)) ts))"
      by (rule analyse_fields(1))
    show "remaining (analyse ts (budgets ! i)) =
     double_sub (Num (limit_amount (budgets ! i))) (spent (analyse ts (budgets ! i)))"
      by (rule analyse_fields(2))
    show "percentage (analyse ts (budgets ! i)) =
     double_mul
       (double_div (spent (analyse ts (budgets ! i))) (Num (limit_amount (budgets ! i))))
       (Num 100)"
      by (rule analyse_fields(3))
    show "isOverBudget (analyse ts (budgets ! i)) =
     double_gt (spent (analyse ts (budgets ! i))) (Num (limit_amount (budgets ! i)))"
      by (rule analyse_fields(4))
  next
    assume w: "whole_amounts (map amount ts)"
    then show "spent (analyse ts (budgets ! i)) =
        Num (sum_list (map amount
          (filter (\<lambda>t. type t = Expense \<and> category t = budget_category (budgets ! i) \<and>
                        start_date (budgets ! i) \<le> date t \<and>
                        date t \<le> end_date (budgets ! i)) ts)))"
      by (rule analyse_whole)
    assume "whole (limit_amount (budgets ! i)) \<and> limit_amount (budgets ! i) < 2 ^ 53"
    then have "whole (limit_amount (budgets ! i))" and "limit_amount (budgets ! i) < 2 ^ 53"
      by simp_all
    with w show "remaining (analyse ts (budgets ! i)) =
           Num (limit_amount (budgets ! i) -
                sum_list (map amount
                  (filter (\<lambda>t. type t = Expense \<and>
                                category t = budget_category (budgets ! i) \<and>
                                start_date (budgets ! i) \<le> date t \<and>
                                date t \<le> end_date (budgets ! i)) ts)))"
      by (rule analyse_whole_remaining)
  qed
qed

theorem budget_utilization_witness:
  "0 < length [food_budget 800] \<and>
   whole_amounts (map amount may_transactions) \<and>
   whole (limit_amount ([food_budget 800] ! 0)) \<and>
   limit_amount ([food_budget 800] ! 0) < 2 ^ 53 \<and>
   spent (budgetAnalysis [food_budget 800] may_transactions ! 0) = Num 1000 \<and>
   remaining (budgetAnalysis [food_budget 800] may_transactions ! 0) = Num (- 200) \<and>
   percentage (budgetAnalysis [food_budget 800] may_transactions ! 0) = Num 125 \<and>
   isOverBudget (budgetAnalysis [food_budget 800] may_transactions ! 0) \<and>
   \<not> isOverBudget (budgetAnalysis [food_budget (double_value (201 / 100))] cents ! 0)"
proof -
  have l: "0 < length [food_budget 800]" by simp
  have w: "whole_amounts (map amount may_transactions)"
    by (simp add: whole_amounts_def whole_def may_transactions_def tx_def)
  have wl: "whole (limit_amount ([food_budget 800] ! 0))"
    "limit_amount ([food_budget 800] ! 0) < 2 ^ 53"
    by (simp_all add: whole_def food_budget_def)
  have k: "limit_amount ([food_budget 800] ! 0) = 800"
    by (simp add: food_budget_def)
  have s: "sum_list (map amount
          (filter (\<lambda>t. type t = Expense \<and> category t = budget_category ([food_budget 800] ! 0) \<and>
                        start_date ([food_budget 800] ! 0) \<le> date t \<and>
                        date t \<le> end_date ([food_budget 800] ! 0)) may_transactions)) = 1000"
    by (simp add: may_transactions_def tx_def food_budget_def)
  note th = budget_utilization [OF l, of may_transactions]
  note ex = th [THEN conjunct2, THEN conjunct2, THEN conjunct2, THEN conjunct2, THEN mp, OF w]
  have sp: "spent (budgetAnalysis [food_budget 800] may_transactions ! 0) = Num 1000"
    using ex [THEN conjunct1] by (simp only: s)
  have "remaining (budgetAnalysis [food_budget 800] may_transactions ! 0) = Num (800 - 1000)"
    using ex [THEN conjunct2, THEN mp, OF conjI, OF wl] by (simp only: s k)
  then have re: "remaining (budgetAnalysis [food_budget 800] may_transactions ! 0) = Num (- 200)"
    by simp
  have q: "double_mul (double_div (Num 1000) (Num 800)) (Num 100) = Num 125"
    by code_simp
  have pc: "percentage (budgetAnalysis [food_budget 800] may_transactions ! 0) = Num 125"
    using th [THEN conjunct2, THEN conjunct2, THEN conjunct1] by (simp only: sp k q)
  have "isOverBudget (budgetAnalysis [food_budget 800] may_transactions ! 0) =
      double_gt (Num 1000) (Num 800)"
    using th [THEN conjunct2, THEN conjunct2, THEN conjunct2, THEN conjunct1]
    by (simp only: sp k)
  then have ov: "isOverBudget (budgetAnalysis [food_budget 800] may_transactions ! 0)"
    by simp
  have ce: "\<not> isOverBudget (budgetAnalysis [food_budget (double_value (201 / 100))] cents ! 0)"
    by code_simp
  from l w wl sp re pc ov ce show ?thesis by (intro conjI)
qed

text \<open>
  Claim C5. For every budget of the list and every list of transactions,
  \<open>isNearLimit\<close> is \<open>percentage > 80\<close> together with the negation of \<open>isOverBudget\<close>, so
  the two flags are never both true.
\<close>

theorem budget_flags:
  assumes "i < length budgets"
  shows
  "isNearLimit (budgetAnalysis budgets ts ! i) =
     (js_gt (percentage (budgetAnalysis budgets ts ! i)) 80 \<and>
      \<not> isOverBudget (budgetAnalysis budgets ts ! i)) \<and>
   \<not> (isOverBudget (budgetAnalysis budgets ts ! i) \<and>
      isNearLimit (budgetAnalysis budgets ts ! i))"
  using assms by (simp add: budgetAnalysis_def analyse_fields(5))

theorem budget_flags_witness:
  "0 < length [food_budget 1100] \<and>
   isNearLimit (budgetAnalysis [food_budget 1100] may_transactions ! 0) \<and>
   js_gt (percentage (budgetAnalysis [food_budget 1100] may_transactions ! 0)) 80 \<and>
   \<not> isOverBudget (budgetAnalysis [food_budget 1100] may_transactions ! 0)"
proof -
  have l: "0 < length [food_budget 1100]" by simp
  have "isNearLimit (budgetAnalysis [food_budget 1100] may_transactions ! 0)"
    by code_simp
  then show ?thesis
    using budget_flags [OF l, of may_transactions] by simp
qed






section \<open>Thirty-day trend\<close>









section \<open>Expenses by category\<close>

lemma or_zero_not_NaN [simp]: "or_zero x \<noteq> NaN"
  by (cases x rule: or_zero.cases) simp_all

lemma or_zero_Some: "v \<noteq> NaN \<Longrightarrow> or_zero (Some v) = v"
  by (cases v) simp_all

lemma map_of_add_total:
  "map_of (add_total acc t) =
     (map_of acc)(category t \<mapsto>
        double_add (or_zero (map_of acc (category t))) (Num (amount t)))"
  by (simp add: add_total_def update_conv')

lemma add_total_no_NaN:
  assumes "NaN \<notin> ran (map_of acc)"
  shows "NaN \<notin> ran (map_of (add_total acc t))"
proof -
  have "double_add (or_zero (map_of acc (category t))) (Num (amount t)) \<noteq> NaN"
    by (rule double_add_Num_not_NaN) simp
  with assms show ?thesis
    by (auto simp: map_of_add_total ran_def split: if_splits)
qed

lemma filter_category_absent:
  "c \<notin> category ` set xs \<Longrightarrow> filter (\<lambda>t. category t = c) xs = []"
  by (induction xs) auto

lemma map_of_foldl_add_total:
  assumes "NaN \<notin> ran (map_of acc)"
  shows "map_of (foldl add_total acc xs) c =
     (if c \<in> category ` set xs
      then Some (foldl (\<lambda>sum a. double_add sum (Num a)) (or_zero (map_of acc c))
                   (map amount (filter (\<lambda>t. category t = c) xs)))
      else map_of acc c)"
  using assms
proof (induction xs arbitrary: acc)
  case Nil
  then show ?case by simp
next
  case (Cons t xs)
  let ?acc = "add_total acc t"
  let ?v = "double_add (or_zero (map_of acc (category t))) (Num (amount t))"
  have inv: "NaN \<notin> ran (map_of ?acc)"
    using Cons.prems by (rule add_total_no_NaN)
  note IH = Cons.IH [OF inv]
  show ?case
  proof (cases "category t = c")
    case True
    have v: "?v \<noteq> NaN" by (rule double_add_Num_not_NaN) simp
    have look: "map_of ?acc c = Some ?v"
      using True by (simp add: map_of_add_total)
    have oz: "or_zero (map_of ?acc c) = ?v"
      unfolding look using v by (rule or_zero_Some)
    show ?thesis
    proof (cases "c \<in> category ` set xs")
      case in_rest: True
      then show ?thesis
        using True by (simp add: IH oz)
    next
      case False
      then show ?thesis
        using True by (simp add: IH look filter_category_absent)
    qed
  next
    case False
    then have "map_of ?acc c = map_of acc c"
      by (simp add: map_of_add_total)
    then show ?thesis
      using False by (auto simp: IH)
  qed
qed

lemma map_of_categoryTotals:
  "map_of (categoryTotals m ts) c =
     (if c \<in> category ` set (monthExpenses m ts)
      then Some (category_total c (monthExpenses m ts))
      else None)"
proof -
  have "NaN \<notin> ran (map_of ([] :: js_object))" by simp
  from map_of_foldl_add_total [OF this, of "monthExpenses m ts" c]
  show ?thesis
    by (simp add: categoryTotals_def category_total_def double_sum_def number_sum_def foldl_map)
qed

lemma category_total_not_NaN: "category_total c xs \<noteq> NaN"
  by (simp add: category_total_def double_sum_not_NaN)

lemma distinct_foldl_add_total:
  "distinct (map fst acc) \<Longrightarrow> distinct (map fst (foldl add_total acc xs))"
  by (induction xs arbitrary: acc) (simp_all add: add_total_def distinct_update)

lemma keys_foldl_add_total:
  "fst ` set (foldl add_total acc xs) = fst ` set acc \<union> category ` set xs"
  by (induction xs arbitrary: acc) (auto simp: add_total_def dom_update)

lemma mset_Object_entries: "mset (Object_entries obj) = mset obj"
  by (simp add: Object_entries_def)

lemma chartData_sortedEntries: "chartData m ts = take 6 (sortedEntries m ts)"
  by (simp add: chartData_def)

lemma to_item_sel [simp]:
  "item_category (to_item p) = fst p" "item_amount (to_item p) = snd p"
  by (simp_all add: to_item_def)

lemma mset_sortedEntries:
  "mset (sortedEntries m ts) = image_mset to_item (mset (categoryTotals m ts))"
  by (simp add: sortedEntries_def mset_Object_entries)

lemma set_sortedEntries: "set (sortedEntries m ts) = to_item ` set (categoryTotals m ts)"
  by (metis mset_sortedEntries set_image_mset set_mset_mset)

lemma length_sortedEntries: "length (sortedEntries m ts) = length (categoryTotals m ts)"
  by (metis mset_sortedEntries size_mset size_image_mset)

lemma categories_sortedEntries:
  "mset (map item_category (sortedEntries m ts)) = mset (map fst (categoryTotals m ts))"
  by (simp add: mset_sortedEntries image_mset.compositionality comp_def)

lemma distinct_categoryTotals: "distinct (map fst (categoryTotals m ts))"
  by (simp add: categoryTotals_def distinct_foldl_add_total)

lemma keys_categoryTotals:
  "fst ` set (categoryTotals m ts) = category ` set (monthExpenses m ts)"
  by (simp add: categoryTotals_def keys_foldl_add_total)

lemma distinct_sortedEntries: "distinct (map item_category (sortedEntries m ts))"
  using categories_sortedEntries [of m ts] distinct_categoryTotals [of m ts]
  by (metis mset_eq_imp_distinct_iff)

lemma length_categoryTotals:
  "length (categoryTotals m ts) = card (category ` set (monthExpenses m ts))"
proof -
  have "card (fst ` set (categoryTotals m ts)) = length (map fst (categoryTotals m ts))"
    using distinct_categoryTotals [of m ts] by (metis distinct_card set_map)
  then show ?thesis by (simp add: keys_categoryTotals)
qed

lemma entry_categoryTotals:
  assumes "(c, a) \<in> set (categoryTotals m ts)"
  shows "c \<in> category ` set (monthExpenses m ts) \<and>
         a = category_total c (monthExpenses m ts)"
proof -
  have "map_of (categoryTotals m ts) c = Some a"
    using assms distinct_categoryTotals by (simp add: map_of_eq_Some_iff)
  then show ?thesis
    by (simp add: map_of_categoryTotals split: if_splits)
qed

lemma item_sortedEntries:
  assumes "item \<in> set (sortedEntries m ts)"
  shows "item_category item \<in> category ` set (monthExpenses m ts) \<and>
         item_amount item = category_total (item_category item) (monthExpenses m ts)"
proof -
  from assms obtain p where p: "p \<in> set (categoryTotals m ts)" and i: "item = to_item p"
    by (auto simp: set_sortedEntries)
  from p have "(fst p, snd p) \<in> set (categoryTotals m ts)" by simp
  from entry_categoryTotals [OF this] show ?thesis by (simp add: i)
qed

lemma category_in_sortedEntries:
  assumes "c \<in> category ` set (monthExpenses m ts)"
  shows "\<exists>item \<in> set (sortedEntries m ts). item_category item = c"
proof -
  from assms have "c \<in> fst ` set (categoryTotals m ts)"
    by (simp add: keys_categoryTotals)
  then obtain p where "p \<in> set (categoryTotals m ts)" and "fst p = c" by auto
  then have "to_item p \<in> set (sortedEntries m ts)" and "item_category (to_item p) = c"
    by (simp_all add: set_sortedEntries)
  then show ?thesis by blast
qed

text \<open>On numbers other than \<open>NaN\<close> the order of the keys is \<open>>=\<close>.\<close>

lemma desc_key_le:
  "a \<noteq> NaN \<Longrightarrow> b \<noteq> NaN \<Longrightarrow> desc_key a \<le> desc_key b \<longleftrightarrow> double_ge a b"
  by (cases a; cases b) simp_all

lemma sorted_sortedEntries:
  "sorted_wrt (\<lambda>a b. double_ge (item_amount a) (item_amount b)) (sortedEntries m ts)"
proof -
  have "sorted (map (\<lambda>item. desc_key (item_amount item)) (sortedEntries m ts))"
    by (simp add: sortedEntries_def)
  then have "sorted_wrt (\<lambda>a b. desc_key (item_amount a) \<le> desc_key (item_amount b))
               (sortedEntries m ts)"
    by (simp add: sorted_map)
  moreover have "double_ge (item_amount a) (item_amount b)"
    if "a \<in> set (sortedEntries m ts)" "b \<in> set (sortedEntries m ts)"
       "desc_key (item_amount a) \<le> desc_key (item_amount b)" for a b
  proof -
    have "item_amount a \<noteq> NaN" "item_amount b \<noteq> NaN"
      using item_sortedEntries [OF that(1)] item_sortedEntries [OF that(2)]
      by (simp_all add: category_total_not_NaN)
    with that(3) show ?thesis by (simp add: desc_key_le)
  qed
  ultimately show ?thesis by (rule sorted_wrt_mono_rel [rotated])
qed

lemma sortedEntries_split:
  "sorted_wrt (\<lambda>a b. double_ge (item_amount a) (item_amount b))
     (chartData m ts @ drop 6 (sortedEntries m ts))"
  using sorted_sortedEntries [of m ts] by (simp add: chartData_sortedEntries)

lemma chartData_length:
  "length (chartData m ts) = min 6 (card (category ` set (monthExpenses m ts)))"
  by (simp add: chartData_sortedEntries length_sortedEntries length_categoryTotals min.commute)

lemma chartData_distinct: "distinct (map item_category (chartData m ts))"
  using distinct_sortedEntries [of m ts]
  by (simp add: chartData_sortedEntries take_map [symmetric] distinct_take)

lemma chartData_subset: "set (chartData m ts) \<subseteq> set (sortedEntries m ts)"
  by (simp add: chartData_sortedEntries set_take_subset)

lemma chartData_item:
  assumes "item \<in> set (chartData m ts)"
  shows "item_category item \<in> category ` set (monthExpenses m ts) \<and>
         item_amount item = category_total (item_category item) (monthExpenses m ts)"
  using assms chartData_subset item_sortedEntries by blast

lemma chartData_sorted:
  "sorted_wrt (\<lambda>a b. double_ge a b) (map item_amount (chartData m ts))"
proof -
  have "sorted_wrt (\<lambda>a b. double_ge (item_amount a) (item_amount b)) (chartData m ts)"
    using sortedEntries_split [of m ts] by (simp add: sorted_wrt_append)
  then show ?thesis by (simp add: sorted_wrt_map)
qed

lemma chartData_top:
  assumes c: "c \<in> category ` set (monthExpenses m ts)"
      and out: "c \<notin> item_category ` set (chartData m ts)"
      and item: "item \<in> set (chartData m ts)"
  shows "double_ge (item_amount item) (category_total c (monthExpenses m ts))"
proof -
  from category_in_sortedEntries [OF c]
  obtain e where e: "e \<in> set (sortedEntries m ts)" and ec: "item_category e = c" by blast
  have "e \<notin> set (chartData m ts)" using out ec by auto
  moreover have "set (sortedEntries m ts) =
      set (chartData m ts) \<union> set (drop 6 (sortedEntries m ts))"
    by (metis append_take_drop_id chartData_sortedEntries set_append)
  ultimately have "e \<in> set (drop 6 (sortedEntries m ts))" using e by blast
  with item sortedEntries_split [of m ts]
  have "double_ge (item_amount item) (item_amount e)"
    by (simp add: sorted_wrt_append)
  moreover have "item_amount e = category_total c (monthExpenses m ts)"
    using item_sortedEntries [OF e] ec by simp
  ultimately show ?thesis by simp
qed

lemma totalAmount_number_sum: "totalAmount items = number_sum (map item_amount items)"
  by (simp add: totalAmount_def number_sum_def foldl_map)

lemma dataWithPercentages_eq:
  "dataWithPercentages items =
     map (\<lambda>item.
            \<lparr>item_category = item_category item,
             item_amount = item_amount item,
             item_percentage =
               (if double_gt (number_sum (map item_amount items)) (Num 0)
                then toFixed1
                       (double_mul
                          (double_div (item_amount item) (number_sum (map item_amount items)))
                          (Num 100))
                else ''0'')\<rparr>) items"
  by (simp add: dataWithPercentages_def with_percentage_def totalAmount_number_sum)

text \<open>Whole amounts: every total is exact, and the totals of the categories add up.\<close>

lemma category_total_whole:
  assumes "whole_amounts (map amount xs)"
  shows "category_total c xs = Num (sum_list (map amount (filter (\<lambda>t. category t = c) xs)))"
  unfolding category_total_def using assms by (rule double_sum_filter_whole)

lemma sum_list_by_category:
  assumes "finite C" and "category ` set xs \<subseteq> C"
  shows "(\<Sum>c\<in>C. sum_list (map amount (filter (\<lambda>t. category t = c) xs))) =
         sum_list (map amount xs)"
  using assms(2)
proof (induction xs)
  case Nil
  then show ?case by simp
next
  case (Cons t xs)
  then have t: "category t \<in> C" and rest: "category ` set xs \<subseteq> C" by simp_all
  have "(\<Sum>c\<in>C. sum_list (map amount (filter (\<lambda>t. category t = c) (t # xs)))) =
        (\<Sum>c\<in>C. (if category t = c then amount t else 0) +
                 sum_list (map amount (filter (\<lambda>t. category t = c) xs)))"
    by (intro sum.cong) simp_all
  also have "\<dots> = (\<Sum>c\<in>C. if category t = c then amount t else 0) +
        (\<Sum>c\<in>C. sum_list (map amount (filter (\<lambda>t. category t = c) xs)))"
    by (rule sum.distrib)
  also have "(\<Sum>c\<in>C. if category t = c then amount t else 0) = amount t"
    using assms(1) t by (simp add: sum.delta')
  finally show ?case using Cons.IH [OF rest] by simp
qed

lemma chartData_all_whole:
  assumes w: "whole_amounts (map amount (monthExpenses m ts))"
      and few: "card (category ` set (monthExpenses m ts)) \<le> 6"
  shows "number_sum (map item_amount (chartData m ts)) =
         Num (sum_list (map amount (monthExpenses m ts)))"
proof -
  let ?xs = "monthExpenses m ts"
  let ?S = "sortedEntries m ts"
  let ?ex = "\<lambda>c. sum_list (map amount (filter (\<lambda>t. category t = c) ?xs))"
  let ?exs = "map (\<lambda>item. ?ex (item_category item)) ?S"
  have "length ?S \<le> 6"
    using few by (simp add: length_sortedEntries length_categoryTotals)
  then have all: "chartData m ts = ?S"
    by (simp add: chartData_sortedEntries)
  have amounts: "map item_amount ?S = map Num ?exs"
    using item_sortedEntries [of _ m ts] by (simp add: category_total_whole [OF w])
  have cats: "set (map item_category ?S) = category ` set ?xs"
    by (metis categories_sortedEntries keys_categoryTotals set_map set_mset_mset)
  have "sum_list ?exs = sum_list (map ?ex (map item_category ?S))"
    by (simp add: comp_def)
  also have "\<dots> = (\<Sum>c\<in>set (map item_category ?S). ?ex c)"
    using distinct_sortedEntries [of m ts] by (rule sum_list_distinct_conv_sum_set)
  also have "\<dots> = (\<Sum>c\<in>category ` set ?xs. ?ex c)"
    by (simp only: cats)
  also have "\<dots> = sum_list (map amount ?xs)"
    by (rule sum_list_by_category) simp_all
  finally have total: "sum_list ?exs = sum_list (map amount ?xs)" .
  have small: "sum_list ?exs < 2 ^ 53"
    using w by (simp only: total) (simp add: whole_amounts_def)
  have "list_all whole ?exs"
    using whole_amounts_filter(3) [OF w] by (simp add: list_all_iff)
  from double_sum_whole [OF this small]
  have "double_sum ?exs = Num (sum_list (map amount ?xs))"
    by (simp only: total)
  then show ?thesis
    by (simp only: all amounts double_sum_def)
qed

text \<open>
  Claim C1, as stated, fails. With seven categories of expenses in the month (1 to
  7, 28 in all) the chart keeps the six largest, and the percentage of the first
  entry is taken of their sum 27: the string \<open>25.9\<close>, where 7 of the month's total
  28 is 25.
\<close>

theorem expense_breakdown_counterexample:
  "item_amount (dataWithPercentages (chartData ''2024-05'' seven_categories) ! 0) = Num 7 \<and>
   expenses (calculateSummary ''2024-05'' seven_categories) = Num 28 \<and>
   item_percentage (dataWithPercentages (chartData ''2024-05'' seven_categories) ! 0) = ''25.9'' \<and>
   toFixed1 (double_mul (double_div (Num 7) (Num 28)) (Num 100)) = ''25.0'' \<and>
   item_percentage (dataWithPercentages (chartData ''2024-05'' seven_categories) ! 0) \<noteq>
     toFixed1 (double_mul
       (double_div (item_amount (dataWithPercentages (chartData ''2024-05'' seven_categories) ! 0))
                   (expenses (calculateSummary ''2024-05'' seven_categories))) (Num 100))"
proof -
  have a: "item_amount (dataWithPercentages (chartData ''2024-05'' seven_categories) ! 0) = Num 7"
    by code_simp
  have e: "expenses (calculateSummary ''2024-05'' seven_categories) = Num 28"
    by code_simp
  have p: "item_percentage (dataWithPercentages (chartData ''2024-05'' seven_categories) ! 0) =
      ''25.9''"
    by code_simp
  have q: "toFixed1 (double_mul (double_div (Num 7) (Num 28)) (Num 100)) = ''25.0''"
    by code_simp
  have "item_percentage (dataWithPercentages (chartData ''2024-05'' seven_categories) ! 0) \<noteq>
     toFixed1 (double_mul
       (double_div (item_amount (dataWithPercentages (chartData ''2024-05'' seven_categories) ! 0))
                   (expenses (calculateSummary ''2024-05'' seven_categories))) (Num 100))"
    unfolding a e p q by simp
  with a e p q show ?thesis by (intro conjI)
qed

text \<open>
  Claim C1, amended. For every list of transactions and target month, where no
  category of the month's expenses is a property name of \<open>Object.prototype\<close>:
  \<open>chartData\<close> has one entry for each of at most 6 distinct categories of the
  month's expense transactions, with the total of the category as amount (its
  amounts added as doubles in the order of the list), in descending order of the
  amounts, and every category left out has a total that is at most each amount
  kept. \<open>dataWithPercentages\<close> annotates each entry with the string \<open>toFixed(1)\<close> of
  the double \<open>amount / shown * 100\<close>, where \<open>shown\<close> is the sum of the amounts of the
  entries kept, and with \<open>'0'\<close> when \<open>shown\<close> is not positive. When the month's
  expenses are whole amounts with a sum below \<open>2^53\<close>, every amount kept is the exact
  total of its category, and with at most 6 categories \<open>shown\<close> is the month's exact
  total of expenses.
\<close>

theorem expense_breakdown:
  assumes "\<forall>t \<in> set (monthExpenses m ts). plain_key (category t)"
  shows
  "length (chartData m ts) = min 6 (card (category ` set (monthExpenses m ts))) \<and>
   distinct (map item_category (chartData m ts)) \<and>
   (\<forall>item \<in> set (chartData m ts).
      item_category item \<in> category ` set (monthExpenses m ts) \<and>
      item_amount item = category_total (item_category item) (monthExpenses m ts)) \<and>
   sorted_wrt (\<lambda>a b. double_ge a b) (map item_amount (chartData m ts)) \<and>
   (\<forall>c \<in> category ` set (monthExpenses m ts).
      c \<notin> item_category ` set (chartData m ts) \<longrightarrow>
      (\<forall>item \<in> set (chartData m ts).
         double_ge (item_amount item) (category_total c (monthExpenses m ts)))) \<and>
   dataWithPercentages (chartData m ts) =
     map (\<lambda>item.
            \<lparr>item_category = item_category item,
             item_amount = item_amount item,
             item_percentage =
               (if double_gt (number_sum (map item_amount (chartData m ts))) (Num 0)
                then toFixed1
                       (double_mul
                          (double_div (item_amount item)
                             (number_sum (map item_amount (chartData m ts))))
                          (Num 100))
                else ''0'')\<rparr>) (chartData m ts) \<and>
   (whole_amounts (map amount (monthExpenses m ts)) \<longrightarrow>
      (\<forall>item \<in> set (chartData m ts).
         item_amount item =
           Num (sum_list (map amount
                  (filter (\<lambda>t. category t = item_category item) (monthExpenses m ts))))) \<and>
      (card (category ` set (monthExpenses m ts)) \<le> 6 \<longrightarrow>
         number_sum (map item_amount (chartData m ts)) =
           Num (sum_list (map amount (monthExpenses m ts)))))"
proof (intro conjI ballI impI)
  show "length (chartData m ts) = min 6 (card (category ` set (monthExpenses m ts)))"
    by (rule chartData_length)
  show "distinct (map item_category (chartData m ts))"
    by (rule chartData_distinct)
  show "sorted_wrt (\<lambda>a b. double_ge a b) (map item_amount (chartData m ts))"
    by (rule chartData_sorted)
  show "dataWithPercentages (chartData m ts) =
     map (\<lambda>item.
            \<lparr>item_category = item_category item,
             item_amount = item_amount item,
             item_percentage =
               (if double_gt (number_sum (map item_amount (chartData m ts))) (Num 0)
                then toFixed1
                       (double_mul
                          (double_div (item_amount item)
                             (number_sum (map item_amount (chartData m ts))))
                          (Num 100))
                else ''0'')\<rparr>) (chartData m ts)"
    by (rule dataWithPercentages_eq)
next
  fix item assume "item \<in> set (chartData m ts)"
  from chartData_item [OF this]
  show "item_category item \<in> category ` set (monthExpenses m ts)"
    and "item_amount item = category_total (item_category item) (monthExpenses m ts)"
    by simp_all
next
  fix c item
  assume "c \<in> category ` set (monthExpenses m ts)"
    and "c \<notin> item_category ` set (chartData m ts)"
    and "item \<in> set (chartData m ts)"
  then show "double_ge (item_amount item) (category_total c (monthExpenses m ts))"
    by (rule chartData_top)
next
  fix item
  assume w: "whole_amounts (map amount (monthExpenses m ts))"
    and "item \<in> set (chartData m ts)"
  from chartData_item [OF this(2)]
  show "item_amount item =
           Num (sum_list (map amount
                  (filter (\<lambda>t. category t = item_category item) (monthExpenses m ts))))"
    by (simp add: category_total_whole [OF w])
next
  assume "whole_amounts (map amount (monthExpenses m ts))"
    and "card (category ` set (monthExpenses m ts)) \<le> 6"
  then show "number_sum (map item_amount (chartData m ts)) =
           Num (sum_list (map amount (monthExpenses m ts)))"
    by (rule chartData_all_whole)
qed

theorem expense_breakdown_witness:
  "list_all (\<lambda>t. plain_key (category t)) (monthExpenses ''2024-05'' seven_categories) \<and>
   ''a'' \<in> category ` set (monthExpenses ''2024-05'' seven_categories) \<and>
   ''a'' \<notin> item_category ` set (chartData ''2024-05'' seven_categories) \<and>
   length (chartData ''2024-05'' seven_categories) = 6 \<and>
   map item_category (chartData ''2024-05'' seven_categories) =
     [''g'', ''f'', ''e'', ''d'', ''c'', ''b''] \<and>
   map item_amount (chartData ''2024-05'' seven_categories) =
     [Num 7, Num 6, Num 5, Num 4, Num 3, Num 2] \<and>
   list_all (\<lambda>item. double_ge (item_amount item)
                       (category_total ''a'' (monthExpenses ''2024-05'' seven_categories)))
     (chartData ''2024-05'' seven_categories) \<and>
   list_all (\<lambda>t. plain_key (category t)) (monthExpenses ''2024-05'' two_categories) \<and>
   whole_amounts (map amount (monthExpenses ''2024-05'' two_categories)) \<and>
   card (category ` set (monthExpenses ''2024-05'' two_categories)) \<le> 6 \<and>
   number_sum (map item_amount (chartData ''2024-05'' two_categories)) = Num 80 \<and>
   map item_percentage (dataWithPercentages (chartData ''2024-05'' two_categories)) =
     [''51.2'', ''48.8'']"
proof -
  have p7: "\<forall>t \<in> set (monthExpenses ''2024-05'' seven_categories). plain_key (category t)"
    by code_simp
  have a_in: "''a'' \<in> category ` set (monthExpenses ''2024-05'' seven_categories)"
    by code_simp
  have a_out: "''a'' \<notin> item_category ` set (chartData ''2024-05'' seven_categories)"
    by code_simp
  have cats: "map item_category (chartData ''2024-05'' seven_categories) =
     [''g'', ''f'', ''e'', ''d'', ''c'', ''b'']"
    by code_simp
  have amts: "map item_amount (chartData ''2024-05'' seven_categories) =
     [Num 7, Num 6, Num 5, Num 4, Num 3, Num 2]"
    by code_simp
  have p2: "\<forall>t \<in> set (monthExpenses ''2024-05'' two_categories). plain_key (category t)"
    by code_simp
  have w2: "whole_amounts (map amount (monthExpenses ''2024-05'' two_categories))"
    by code_simp
  have few: "card (category ` set (monthExpenses ''2024-05'' two_categories)) \<le> 6"
    by code_simp
  have month: "sum_list (map amount (monthExpenses ''2024-05'' two_categories)) = 80"
    by code_simp
  have pct: "map item_percentage (dataWithPercentages (chartData ''2024-05'' two_categories)) =
     [''51.2'', ''48.8'']"
    by code_simp
  have c7: "card (category ` set (monthExpenses ''2024-05'' seven_categories)) = 7"
    by code_simp
  note seven = expense_breakdown [OF p7]
  note two = expense_breakdown [OF p2]
  have "length (chartData ''2024-05'' seven_categories) =
      min 6 (card (category ` set (monthExpenses ''2024-05'' seven_categories)))"
    using seven by (rule conjunct1)
  then have len6: "length (chartData ''2024-05'' seven_categories) = 6"
    by (simp add: c7)
  have top: "\<forall>item \<in> set (chartData ''2024-05'' seven_categories).
      double_ge (item_amount item)
        (category_total ''a'' (monthExpenses ''2024-05'' seven_categories))"
    using seven [THEN conjunct2, THEN conjunct2, THEN conjunct2, THEN conjunct2,
      THEN conjunct1, rule_format, OF a_in a_out] by blast
  have "number_sum (map item_amount (chartData ''2024-05'' two_categories)) =
          Num (sum_list (map amount (monthExpenses ''2024-05'' two_categories)))"
    using two [THEN conjunct2, THEN conjunct2, THEN conjunct2, THEN conjunct2,
      THEN conjunct2, THEN conjunct2, THEN mp, OF w2, THEN conjunct2, THEN mp, OF few] .
  then have shown: "number_sum (map item_amount (chartData ''2024-05'' two_categories)) = Num 80"
    by (simp only: month)
  have p7': "list_all (\<lambda>t. plain_key (category t)) (monthExpenses ''2024-05'' seven_categories)"
    using p7 by (simp only: list_all_iff)
  have top': "list_all (\<lambda>item. double_ge (item_amount item)
                       (category_total ''a'' (monthExpenses ''2024-05'' seven_categories)))
     (chartData ''2024-05'' seven_categories)"
    using top by (simp only: list_all_iff)
  have p2': "list_all (\<lambda>t. plain_key (category t)) (monthExpenses ''2024-05'' two_categories)"
    using p2 by (simp only: list_all_iff)
  from p7' a_in a_out len6 cats amts top' p2' w2 few shown pct show ?thesis
    by (intro conjI)
qed

end
